theory Spec2Isabelle
  imports Complex_Main
begin

section \<open>Solar system scene: shallow embedding of \<^verbatim>\<open>src/script.js\<close>\<close>

text \<open>
  The script builds a three.js scene graph once (sky, stars, lights, sun, six planets made
  by \<^verbatim>\<open>createPlanet\<close>), advances rotation angles in \<^verbatim>\<open>animate\<close> on every display
  refresh, and adapts camera and renderer in a \<^verbatim>\<open>resize\<close> listener.

  Modelling decisions:
  \<^item> JavaScript numbers are modelled as \<^typ>\<open>real\<close>. Angles, positions and ratios are
    computed exactly, without rounding, overflow or NaN. In the resize listener, where
    rounding decides a whole number, results are rounded to double precision as JavaScript
    does: the product whose floor is the size of the canvas, and the quotient \<^verbatim>\<open>w / h\<close>.
    That quotient is also the one place where a non-finite number can arise from finite
    inputs, with \<^verbatim>\<open>h = 0\<close>, and has an explicit result type.
  \<^item> A call of \<^verbatim>\<open>createPlanet\<close> can throw a \<^verbatim>\<open>TypeError\<close> before or while it builds
    nodes; the call is modelled with an error result next to the store it leaves.
  \<^item> JavaScript objects are mutable and shared by reference, so scene-graph nodes live in an
    explicit store: a reference is a natural number, the store maps references to node
    records, and \<^verbatim>\<open>new\<close> takes the next unused reference.
  \<^item> Of a three.js \<^verbatim>\<open>Object3D\<close> the fields the script reads or writes are kept: node
    kind with geometry and material, position, Euler rotation, scale, parent, children and
    the two shadow flags. Derived data (quaternion, matrices) is not modelled.
  \<^item> three.js library functions are modelled from the library's behaviour on the calls the
    script makes; each such definition says so.
\<close>

subsection \<open>Numbers and angles\<close>

text \<open>\<^verbatim>\<open>THREE.MathUtils\<close>: \<^verbatim>\<open>DEG2RAD = Math.PI / 180\<close>, \<^verbatim>\<open>degToRad(d) = d * DEG2RAD\<close>,
  \<^verbatim>\<open>randFloatSpread(range) = range * (0.5 - Math.random())\<close>.\<close>

definition DEG2RAD :: real where
  "DEG2RAD = pi / 180"

definition degToRad :: "real \<Rightarrow> real" where
  "degToRad degrees = degrees * DEG2RAD"

definition randFloatSpread :: "real \<Rightarrow> real \<Rightarrow> real" where
  "randFloatSpread rng rnd = rng * (0.5 - rnd)"

text \<open>\<^verbatim>\<open>Number.EPSILON\<close> is \<open>2\<^sup>-\<^sup>5\<^sup>2\<close>.\<close>

definition EPSILON :: real where
  "EPSILON = 1 / 2 ^ 52"

text \<open>
  Double-precision multiplication. A JavaScript number is an IEEE 754 double: 53
  significant bits, so the doubles between \<open>2\<^sup>e\<close> and \<open>2\<^sup>e\<^sup>+\<^sup>1\<close> are \<open>2\<^sup>e\<^sup>-\<^sup>5\<^sup>2\<close> apart
  (and \<open>2\<^sup>-\<^sup>1\<^sup>0\<^sup>7\<^sup>4\<close> apart below \<open>2\<^sup>-\<^sup>1\<^sup>0\<^sup>2\<^sup>2\<close>). The product \<^verbatim>\<open>a * b\<close> of two doubles is the
  double nearest to the exact product, the one with the even significand when two are
  equally near. Overflow to \<^verbatim>\<open>Infinity\<close>, beyond \<open>2\<^sup>1\<^sup>0\<^sup>2\<^sup>4\<close>, is not modelled.
\<close>

definition round_half_even :: "real \<Rightarrow> int" where
  "round_half_even x =
     (let f = \<lfloor>x\<rfloor>; d = x - of_int f
      in if d < 1 / 2 then f else if 1 / 2 < d then f + 1 else if even f then f else f + 1)"

definition double_round :: "real \<Rightarrow> real" where
  "double_round x =
     (if x = 0 then 0
      else (let e = max \<lfloor>log 2 \<bar>x\<bar>\<rfloor> (- 1022);
                u = 2 powr (of_int e - 52)
            in u * of_int (round_half_even (x / u))))"

definition double_mul :: "real \<Rightarrow> real \<Rightarrow> real" where
  "double_mul a b = double_round (a * b)"

subsection \<open>Vectors, geometries, materials\<close>

record vector3 =
  vx :: real
  vy :: real
  vz :: real

definition Vector3 :: "real \<Rightarrow> real \<Rightarrow> real \<Rightarrow> vector3" where
  "Vector3 a b c = \<lparr>vx = a, vy = b, vz = c\<rparr>"

text \<open>Euclidean length of a vector (\<^verbatim>\<open>Vector3.length()\<close>).\<close>

definition vlength :: "vector3 \<Rightarrow> real" where
  "vlength v = sqrt (vx v * vx v + vy v * vy v + vz v * vz v)"

record euler =
  ex :: real
  ey :: real
  ez :: real

type_synonym color = nat

datatype side = FrontSide | BackSide | DoubleSide

text \<open>
  Geometries are kept as the constructor call that made them. A \<^verbatim>\<open>BufferGeometry\<close> filled
  by \<^verbatim>\<open>setFromPoints\<close> or by a position attribute carries its vertex list;
  \<open>RotatedX a g\<close> is the geometry \<open>g\<close> after \<^verbatim>\<open>g.rotateX(a)\<close>, which rotates the vertex
  data of the geometry in place and leaves every node transform alone.
\<close>

datatype geometry =
    SphereGeometry real nat nat
  | RingGeometry real real nat
  | PointsGeometry "vector3 list"
  | RotatedX real geometry

datatype material =
    MeshBasicMaterial color side bool real
  | MeshStandardMaterial color real real color real
  | LineBasicMaterial color
  | PointsMaterial color real bool

text \<open>
  Argument order of the material constructors:
  \<open>MeshBasicMaterial color side transparent opacity\<close>,
  \<open>MeshStandardMaterial color roughness metalness emissive emissiveIntensity\<close>,
  \<open>PointsMaterial color size sizeAttenuation\<close>. Options the script leaves out take the
  three.js defaults: \<open>FrontSide\<close>, not transparent, opacity 1, roughness 1, metalness 0,
  emissive black with intensity 1.
\<close>

datatype node =
    Scene color
  | Group
  | Mesh geometry material
  | LineLoop geometry material
  | Points geometry material
  | PointLight color real
  | AmbientLight color real

subsection \<open>The object store\<close>

type_synonym ref = nat

record object3d =
  kind :: node
  position :: vector3
  rotation :: euler
  scale :: vector3
  parent :: "ref option"
  children :: "ref list"
  castShadow :: bool
  receiveShadow :: bool

record heap =
  objs :: "ref \<Rightarrow> object3d"
  next_ref :: ref

text \<open>A freshly constructed \<^verbatim>\<open>Object3D\<close>: at the origin, unrotated, unit scale, detached.\<close>

definition new_object :: "node \<Rightarrow> object3d" where
  "new_object k =
     \<lparr>kind = k, position = Vector3 0 0 0, rotation = \<lparr>ex = 0, ey = 0, ez = 0\<rparr>,
      scale = Vector3 1 1 1, parent = None, children = [],
      castShadow = False, receiveShadow = False\<rparr>"

definition alloc :: "node \<Rightarrow> heap \<Rightarrow> ref \<times> heap" where
  "alloc k h =
     (next_ref h, h\<lparr>objs := (objs h)(next_ref h := new_object k), next_ref := Suc (next_ref h)\<rparr>)"

definition upd :: "ref \<Rightarrow> (object3d \<Rightarrow> object3d) \<Rightarrow> heap \<Rightarrow> heap" where
  "upd r f h = h\<lparr>objs := (objs h)(r := f (objs h r))\<rparr>"

text \<open>\<^verbatim>\<open>o.position.set(a, b, c)\<close>.\<close>

definition position_set :: "ref \<Rightarrow> real \<Rightarrow> real \<Rightarrow> real \<Rightarrow> heap \<Rightarrow> heap" where
  "position_set r a b c = upd r (\<lambda>ob. ob\<lparr>position := Vector3 a b c\<rparr>)"

text \<open>\<^verbatim>\<open>o.castShadow = false; o.receiveShadow = false\<close>.\<close>

definition shadows_off :: "ref \<Rightarrow> heap \<Rightarrow> heap" where
  "shadows_off r = upd r (\<lambda>ob. ob\<lparr>castShadow := False, receiveShadow := False\<rparr>)"

text \<open>\<^verbatim>\<open>o.rotation.z = a\<close> and \<^verbatim>\<open>o.rotation.y += a\<close>.\<close>

definition rotation_z_set :: "ref \<Rightarrow> real \<Rightarrow> heap \<Rightarrow> heap" where
  "rotation_z_set r a = upd r (\<lambda>ob. ob\<lparr>rotation := (rotation ob)\<lparr>ez := a\<rparr>\<rparr>)"

definition rotation_y_add :: "ref \<Rightarrow> real \<Rightarrow> heap \<Rightarrow> heap" where
  "rotation_y_add r a = upd r (\<lambda>ob. ob\<lparr>rotation := (rotation ob)\<lparr>ey := ey (rotation ob) + a\<rparr>\<rparr>)"

text \<open>
  three.js \<^verbatim>\<open>Object3D.remove\<close>, \<^verbatim>\<open>removeFromParent\<close> and \<^verbatim>\<open>add\<close>, modelled from
  the library: \<^verbatim>\<open>remove\<close> detaches the child only when it is found among the children;
  \<^verbatim>\<open>add\<close> refuses to add a node to itself, detaches the child from its previous parent,
  then sets the parent and appends to the children.
\<close>

definition Object3D_remove :: "ref \<Rightarrow> ref \<Rightarrow> heap \<Rightarrow> heap" where
  "Object3D_remove p c h =
     (if c \<in> set (children (objs h p))
      then upd p (\<lambda>ob. ob\<lparr>children := remove1 c (children ob)\<rparr>)
             (upd c (\<lambda>ob. ob\<lparr>parent := None\<rparr>) h)
      else h)"

definition removeFromParent :: "ref \<Rightarrow> heap \<Rightarrow> heap" where
  "removeFromParent c h =
     (case parent (objs h c) of None \<Rightarrow> h | Some p \<Rightarrow> Object3D_remove p c h)"

definition Object3D_add :: "ref \<Rightarrow> ref \<Rightarrow> heap \<Rightarrow> heap" where
  "Object3D_add p c h =
     (if c = p then h
      else upd p (\<lambda>ob. ob\<lparr>children := children ob @ [c]\<rparr>)
             (upd c (\<lambda>ob. ob\<lparr>parent := Some p\<rparr>) (removeFromParent c h)))"

subsection \<open>The orbit curve\<close>

text \<open>
  three.js \<^verbatim>\<open>EllipseCurve\<close>, modelled from the library. \<^verbatim>\<open>getPoint(t)\<close> normalises the
  swept angle into \<open>[0, 2\<pi>]\<close> (two \<^verbatim>\<open>while\<close> loops adding or subtracting \<open>2\<pi>\<close>, written
  here in closed form), treats a sweep below \<^verbatim>\<open>Number.EPSILON\<close> as empty or full, flips it
  for clockwise arcs, evaluates the ellipse at the angle and applies the curve's rotation.
  \<^verbatim>\<open>getPoints(n)\<close> samples \<open>t = 0, 1/n, \<dots>, 1\<close>: it returns \<open>n + 1\<close> points.
\<close>

record ellipse_curve =
  aX :: real
  aY :: real
  xRadius :: real
  yRadius :: real
  aStartAngle :: real
  aEndAngle :: real
  aClockwise :: bool
  aRotation :: real

definition wrap_angle :: "real \<Rightarrow> real" where
  "wrap_angle d =
     (if d < 0 then d + 2 * pi * of_int \<lceil>- d / (2 * pi)\<rceil>
      else if d > 2 * pi then d - 2 * pi * of_int \<lceil>(d - 2 * pi) / (2 * pi)\<rceil>
      else d)"

definition getPoint :: "ellipse_curve \<Rightarrow> real \<Rightarrow> real \<times> real" where
  "getPoint c t =
     (let twoPi = 2 * pi;
          deltaAngle0 = aEndAngle c - aStartAngle c;
          samePoints = \<bar>deltaAngle0\<bar> < EPSILON;
          deltaAngle1 = wrap_angle deltaAngle0;
          deltaAngle2 = (if deltaAngle1 < EPSILON then (if samePoints then 0 else twoPi)
                         else deltaAngle1);
          deltaAngle = (if aClockwise c \<and> \<not> samePoints
                        then (if deltaAngle2 = twoPi then - twoPi else deltaAngle2 - twoPi)
                        else deltaAngle2);
          angle = aStartAngle c + t * deltaAngle;
          x = aX c + xRadius c * cos angle;
          y = aY c + yRadius c * sin angle
      in if aRotation c \<noteq> 0
         then (let tx = x - aX c; ty = y - aY c
               in (tx * cos (aRotation c) - ty * sin (aRotation c) + aX c,
                   tx * sin (aRotation c) + ty * cos (aRotation c) + aY c))
         else (x, y))"

definition getPoints :: "ellipse_curve \<Rightarrow> nat \<Rightarrow> (real \<times> real) list" where
  "getPoints c divisions = map (\<lambda>d. getPoint c (real d / real divisions)) [0..<Suc divisions]"

subsection \<open>Body parameters and handles\<close>

text \<open>
  The argument of \<^verbatim>\<open>createPlanet\<close> is an object literal whose fields may be left out;
  \<open>None\<close> is a field that is absent (\<^verbatim>\<open>undefined\<close>), for which the destructuring pattern
  supplies the default. For \<^verbatim>\<open>ring\<close>, \<open>None\<close> also stands for \<^verbatim>\<open>null\<close>, which the
  pattern's default and the test \<^verbatim>\<open>if (ring)\<close> treat alike. A moon's \<^verbatim>\<open>color\<close> is read
  through \<^verbatim>\<open>m.color ?? 0xaaaaaa\<close>, so it may be absent too; its other fields and the fields
  of a ring descriptor are read as they are. The fields of the three parameter records
  carry the prefixes \<open>p_\<close>, \<open>m_\<close> and \<open>ring_\<close>, since the handle has fields of the
  same names.
\<close>

record moon_params =
  m_radius :: real
  m_distance :: real
  m_orbitalSpeed :: real
  m_color :: "color option"

record ring_params =
  ring_inner :: real
  ring_outer :: real
  ring_color :: color

record planet_params =
  p_name :: "string option"
  p_radius :: "real option"
  p_color :: "color option"
  p_distance :: "real option"
  p_orbitalSpeed :: "real option"
  p_spinSpeed :: "real option"
  p_tiltDeg :: "real option"
  p_ring :: "ring_params option"
  p_moons :: "moon_params list option"

record moon_handle =
  pivot :: ref
  speed :: real

record handle =
  name :: string
  orbitPivot :: ref
  planetGroup :: ref
  mesh :: ref
  ringMesh :: "ref option"
  spinSpeed :: real
  orbitalSpeed :: real
  moonPivots :: "moon_handle list"

text \<open>A destructuring default: \<^verbatim>\<open>{ field = dflt }\<close>.\<close>

definition dflt :: "'a \<Rightarrow> 'a option \<Rightarrow> 'a" where
  "dflt d v = (case v of None \<Rightarrow> d | Some a \<Rightarrow> a)"

subsection \<open>\<^verbatim>\<open>createPlanet\<close>\<close>

text \<open>
  The loop \<^verbatim>\<open>for (const m of moons)\<close> of lines 128 to 139: each moon gets a pivot group
  under the planet group and a sphere at \<open>(m.distance, 0, 0)\<close> under that pivot; the
  pivot and the moon's orbital speed are pushed onto \<^verbatim>\<open>moonPivots\<close> (here \<open>pivots\<close>;
  \<open>pg\<close> is the planet group).
\<close>

fun createMoons :: "ref \<Rightarrow> moon_params list \<Rightarrow> moon_handle list \<Rightarrow> heap \<Rightarrow> moon_handle list \<times> heap" where
  "createMoons pg [] pivots h = (pivots, h)"
| "createMoons pg (m # ms) pivots h =
     (let (moonPivot, h1) = alloc Group h;
          h2 = Object3D_add pg moonPivot h1;
          moonGeo = SphereGeometry (m_radius m) 24 24;
          moonMat = MeshStandardMaterial (dflt 0xaaaaaa (m_color m)) 0.8 0 0 1;
          (moonMesh, h3) = alloc (Mesh moonGeo moonMat) h2;
          h4 = position_set moonMesh (m_distance m) 0 0 h3;
          h5 = Object3D_add moonPivot moonMesh h4
      in createMoons pg ms (pivots @ [\<lparr>pivot = moonPivot, speed = m_orbitalSpeed m\<rparr>]) h5)"

text \<open>Lines 115 to 125: the optional ring.\<close>

definition createRing :: "ref \<Rightarrow> ring_params option \<Rightarrow> heap \<Rightarrow> ref option \<times> heap" where
  "createRing pg ring h =
     (case ring of
        None \<Rightarrow> (None, h)
      | Some rg \<Rightarrow>
          (let ringGeo = RotatedX (- pi / 2) (RingGeometry (ring_inner rg) (ring_outer rg) 64);
               (ringMesh, h1) =
                  alloc (Mesh ringGeo (MeshBasicMaterial (ring_color rg) DoubleSide True 0.6)) h;
               h2 = Object3D_add pg ringMesh h1
           in (Some ringMesh, h2)))"

text \<open>Lines 95 and 96: the sampled orbit circle, lifted into the \<open>y = 0\<close> plane.\<close>

definition orbit_points :: "real \<Rightarrow> vector3 list" where
  "orbit_points distance =
     (let curve = \<lparr>aX = 0, aY = 0, xRadius = distance, yRadius = distance,
                   aStartAngle = 0, aEndAngle = 2 * pi, aClockwise = False, aRotation = 0\<rparr>
      in map (\<lambda>p. Vector3 (fst p) 0 (snd p)) (getPoints curve 128))"

text \<open>
  \<^verbatim>\<open>createPlanet\<close>, lines 79 to 152. The module-level \<^verbatim>\<open>sunGroup\<close> it attaches to is an
  argument here; the store is threaded through.
\<close>

definition createPlanet :: "ref \<Rightarrow> planet_params \<Rightarrow> heap \<Rightarrow> handle \<times> heap" where
  "createPlanet sunGroup a h0 =
     (let name = dflt ''planet'' (p_name a);
          radius = dflt 2 (p_radius a);
          color = dflt 0xB1B1B1 (p_color a);
          distance = dflt 25 (p_distance a);
          orbitalSpeed = dflt 0.5 (p_orbitalSpeed a);
          spinSpeed = dflt 15 (p_spinSpeed a);
          tiltDeg = dflt 0 (p_tiltDeg a);
          ring = p_ring a;
          moons = dflt [] (p_moons a);
          (orbitPivot, h1) = alloc Group h0;
          h2 = position_set orbitPivot 0 0 0 h1;
          h3 = Object3D_add sunGroup orbitPivot h2;
          orbitGeo = PointsGeometry (orbit_points distance);
          (orbitLine, h4) = alloc (LineLoop orbitGeo (LineBasicMaterial 0x333344)) h3;
          h5 = Object3D_add orbitPivot orbitLine h4;
          (planetGroup, h6) = alloc Group h5;
          h7 = position_set planetGroup distance 0 0 h6;
          h8 = rotation_z_set planetGroup (degToRad tiltDeg) h7;
          h9 = Object3D_add orbitPivot planetGroup h8;
          geo = SphereGeometry radius 32 32;
          mat = MeshStandardMaterial color 0.7 0 0 1;
          (mesh, h10) = alloc (Mesh geo mat) h9;
          h11 = shadows_off mesh h10;
          h12 = Object3D_add planetGroup mesh h11;
          (ringMesh, h13) = createRing planetGroup ring h12;
          (moonPivots, h14) = createMoons planetGroup moons [] h13
      in (\<lparr>name = name, orbitPivot = orbitPivot, planetGroup = planetGroup, mesh = mesh,
           ringMesh = ringMesh, spinSpeed = spinSpeed, orbitalSpeed = orbitalSpeed,
           moonPivots = moonPivots\<rparr>, h14))"






subsection \<open>Scene assembly\<close>

text \<open>
  Lines 28 to 44: 2000 star positions on a shell of radius 300 to 800. \<open>random k\<close> is the
  result of the \<open>k\<close>-th call of \<^verbatim>\<open>Math.random()\<close>; each star draws three numbers.
\<close>

definition star_positions :: "(nat \<Rightarrow> real) \<Rightarrow> vector3 list" where
  "star_positions random =
     map (\<lambda>i. let r = 300 + random (3 * i) * 500;
                  theta = arccos (randFloatSpread 2 (random (3 * i + 1)));
                  phi = randFloatSpread (pi * 2) (random (3 * i + 2))
              in Vector3 (r * sin theta * cos phi) (r * cos theta) (r * sin theta * sin phi))
         [0..<2000]"

record scene_state =
  store :: heap
  scene :: ref
  sunGroup :: ref
  sun :: ref
  planets :: "handle list"

text \<open>The store before anything is constructed; cells beyond \<open>next_ref\<close> are not objects.\<close>

definition empty_heap :: heap where
  "empty_heap = \<lparr>objs = (\<lambda>_. new_object Group), next_ref = 0\<rparr>"

text \<open>Lines 12 to 76: scene, sky sphere, stars, lights, sun group and sun.\<close>

definition setup_scene :: "(nat \<Rightarrow> real) \<Rightarrow> scene_state" where
  "setup_scene random =
     (let (scene, h1) = alloc (Scene 0x000000) empty_heap;
          starGeo = SphereGeometry 900 32 32;
          starMat = MeshBasicMaterial 0x05050a BackSide False 1;
          (starField, h2) = alloc (Mesh starGeo starMat) h1;
          h3 = Object3D_add scene starField h2;
          pGeo = PointsGeometry (star_positions random);
          pMat = PointsMaterial 0xffffff 0.8 True;
          (stars, h4) = alloc (Points pGeo pMat) h3;
          h5 = Object3D_add scene stars h4;
          (sunLight, h6) = alloc (PointLight 0xffffff 15000) h5;
          h7 = Object3D_add scene sunLight h6;
          (ambient, h8) = alloc (AmbientLight 0x222233 0.15) h7;
          h9 = Object3D_add scene ambient h8;
          (sunGroup, h10) = alloc Group h9;
          h11 = Object3D_add scene sunGroup h10;
          sunGeo = SphereGeometry 12 48 48;
          sunMat = MeshStandardMaterial 0x222222 0.6 0.0 0xffaa33 1.8;
          (sun, h12) = alloc (Mesh sunGeo sunMat) h11;
          h13 = shadows_off sun h12;
          h14 = Object3D_add sunGroup sun h13;
          h15 = position_set sunLight 0 0 0 h14;
          h16 = Object3D_add sunGroup sunLight h15
      in \<lparr>store = h16, scene = scene, sunGroup = sunGroup, sun = sun, planets = []\<rparr>)"

text \<open>\<^verbatim>\<open>planets.push(createPlanet({...}))\<close>.\<close>

definition push_planet :: "planet_params \<Rightarrow> scene_state \<Rightarrow> scene_state" where
  "push_planet a st =
     (let (p, h) = createPlanet (sunGroup st) a (store st)
      in st\<lparr>store := h, planets := planets st @ [p]\<rparr>)"

text \<open>Lines 157 to 221: the six object literals passed to \<^verbatim>\<open>createPlanet\<close>.\<close>

definition mercury :: planet_params where
  "mercury = \<lparr>p_name = Some ''mercury'', p_radius = Some 2, p_color = Some 0xB1B1B1,
     p_distance = Some 22, p_orbitalSpeed = Some 47.8, p_spinSpeed = Some 3.0,
     p_tiltDeg = None, p_ring = None, p_moons = None\<rparr>"

definition venus :: planet_params where
  "venus = \<lparr>p_name = Some ''venus'', p_radius = Some 3, p_color = Some 0xEEDC82,
     p_distance = Some 34, p_orbitalSpeed = Some 35, p_spinSpeed = Some (- 2.0),
     p_tiltDeg = None, p_ring = None, p_moons = None\<rparr>"

definition earth :: planet_params where
  "earth = \<lparr>p_name = Some ''earth'', p_radius = Some 3.2, p_color = Some 0x2E8B57,
     p_distance = Some 48, p_orbitalSpeed = Some 29.7, p_spinSpeed = Some 18.0,
     p_tiltDeg = Some 23.5, p_ring = None,
     p_moons = Some [\<lparr>m_radius = 0.9, m_distance = 6, m_orbitalSpeed = 12.0,
                      m_color = Some 0xffffff\<rparr>]\<rparr>"

definition mars :: planet_params where
  "mars = \<lparr>p_name = Some ''mars'', p_radius = Some 2.4, p_color = Some 0xB22222,
     p_distance = Some 62, p_orbitalSpeed = Some 24.1, p_spinSpeed = Some 16.0,
     p_tiltDeg = None, p_ring = None,
     p_moons = Some [\<lparr>m_radius = 0.6, m_distance = 4.5, m_orbitalSpeed = 18.0,
                      m_color = Some 0xdddddd\<rparr>]\<rparr>"

definition jupiter :: planet_params where
  "jupiter = \<lparr>p_name = Some ''jupiter'', p_radius = Some 7.0, p_color = Some 0xD2B48C,
     p_distance = Some 95, p_orbitalSpeed = Some 13.1, p_spinSpeed = Some 19.0,
     p_tiltDeg = None, p_ring = None,
     p_moons = Some [\<lparr>m_radius = 0.6, m_distance = 4.5, m_orbitalSpeed = 18.0,
                      m_color = Some 0xdddddd\<rparr>]\<rparr>"

definition saturn :: planet_params where
  "saturn = \<lparr>p_name = Some ''saturn'', p_radius = Some 6.5, p_color = Some 0xF5DEB3,
     p_distance = Some 115, p_orbitalSpeed = Some 9.6, p_spinSpeed = Some 22.0,
     p_tiltDeg = Some 26.7,
     p_ring = Some \<lparr>ring_inner = 8.0, ring_outer = 12.0, ring_color = 0xdccfa0\<rparr>,
     p_moons = None\<rparr>"

text \<open>The calls in the order the script makes them.\<close>

definition planet_calls :: "planet_params list" where
  "planet_calls = [mercury, venus, earth, mars, jupiter, saturn]"

text \<open>The script up to line 221: the scene with its six planets, before the first tick.\<close>

definition startup :: "(nat \<Rightarrow> real) \<Rightarrow> scene_state" where
  "startup random = fold push_planet planet_calls (setup_scene random)"

subsection \<open>The animation tick\<close>

text \<open>
  Lines 226 to 249. \<open>dt\<close> is the value of \<^verbatim>\<open>clock.getDelta()\<close>. After the rotations the
  script calls \<^verbatim>\<open>controls.update()\<close>, which moves the camera (not a node of the scene),
  \<^verbatim>\<open>renderer.render\<close>, which reads the scene, and \<^verbatim>\<open>requestAnimationFrame(animate)\<close>,
  which schedules the next tick: a run of the loop is the list of the \<open>dt\<close> of its ticks.
\<close>

fun animate_moons :: "real \<Rightarrow> moon_handle list \<Rightarrow> heap \<Rightarrow> heap" where
  "animate_moons dt [] h = h"
| "animate_moons dt (m # ms) h =
     animate_moons dt ms (rotation_y_add (pivot m) (degToRad (speed m) * dt) h)"

fun animate_planets :: "real \<Rightarrow> handle list \<Rightarrow> heap \<Rightarrow> heap" where
  "animate_planets dt [] h = h"
| "animate_planets dt (p # ps) h =
     (let h1 = rotation_y_add (orbitPivot p) (degToRad (orbitalSpeed p) * dt) h;
          h2 = rotation_y_add (mesh p) (degToRad (spinSpeed p) * dt) h1;
          h3 = animate_moons dt (moonPivots p) h2
      in animate_planets dt ps h3)"

definition animate :: "real \<Rightarrow> scene_state \<Rightarrow> scene_state" where
  "animate dt st =
     (let h1 = rotation_y_add (sun st) (degToRad 2.0 * dt) (store st)
      in st\<lparr>store := animate_planets dt (planets st) h1\<rparr>)"

fun run :: "real list \<Rightarrow> scene_state \<Rightarrow> scene_state" where
  "run [] st = st"
| "run (dt # dts) st = run dts (animate dt st)"

subsection \<open>Camera, renderer and the resize listener\<close>

text \<open>
  \<^verbatim>\<open>window.innerWidth\<close> and \<^verbatim>\<open>window.innerHeight\<close> are non-negative integers. Their
  JavaScript quotient is the double nearest to the exact quotient, unless the height is 0.
\<close>

datatype jsnum = Num real | Infinity | NaN

definition js_div :: "nat \<Rightarrow> nat \<Rightarrow> jsnum" where
  "js_div w h =
     (if h = 0 then (if w = 0 then NaN else Infinity)
      else Num (double_round (real w / real h)))"

record window =
  innerWidth :: nat
  innerHeight :: nat
  devicePixelRatio :: real

text \<open>
  three.js \<^verbatim>\<open>WebGLRenderer\<close>, modelled from the library: the renderer keeps the logical
  size and the pixel ratio, and \<^verbatim>\<open>setSize(w, h)\<close> sets the drawing buffer of the canvas to
  \<^verbatim>\<open>Math.floor(w * pixelRatio)\<close> by \<^verbatim>\<open>Math.floor(h * pixelRatio)\<close>, where \<^verbatim>\<open>*\<close> is
  the multiplication of doubles: the floor is taken of the rounded product.
  \<^verbatim>\<open>setPixelRatio\<close> stores the ratio and resizes to the current logical size. A new
  renderer has ratio 1 and the size of the canvas it is given. Sizes and the ratio are
  doubles: whole numbers below \<open>2\<^sup>5\<^sup>3\<close> for the sizes, and whatever double the browser
  reports as \<^verbatim>\<open>devicePixelRatio\<close>.
\<close>

record renderer =
  pixelRatio :: real
  r_width :: real
  r_height :: real
  canvas_width :: int
  canvas_height :: int

definition WebGLRenderer :: "nat \<Rightarrow> nat \<Rightarrow> renderer" where
  "WebGLRenderer cw ch =
     \<lparr>pixelRatio = 1, r_width = real cw, r_height = real ch,
      canvas_width = int cw, canvas_height = int ch\<rparr>"

definition setSize :: "real \<Rightarrow> real \<Rightarrow> renderer \<Rightarrow> renderer" where
  "setSize w h r =
     r\<lparr>r_width := w, r_height := h,
       canvas_width := \<lfloor>double_mul w (pixelRatio r)\<rfloor>,
       canvas_height := \<lfloor>double_mul h (pixelRatio r)\<rfloor>\<rparr>"

definition setPixelRatio :: "real \<Rightarrow> renderer \<Rightarrow> renderer" where
  "setPixelRatio v r = setSize (r_width r) (r_height r) (r\<lparr>pixelRatio := v\<rparr>)"

text \<open>
  three.js \<^verbatim>\<open>PerspectiveCamera\<close>, modelled from the library: the projection matrix is a
  function of \<^verbatim>\<open>fov\<close>, \<^verbatim>\<open>aspect\<close>, \<^verbatim>\<open>near\<close> and \<^verbatim>\<open>far\<close> (zoom and film offset
  keep their defaults), recomputed only by \<^verbatim>\<open>updateProjectionMatrix()\<close>. The model
  keeps, in place of the matrix, the values it was last computed from.
\<close>

record camera =
  fov :: real
  aspect :: jsnum
  near :: real
  far :: real
  cam_position :: vector3
  projection :: "real \<times> jsnum \<times> real \<times> real"

definition updateProjectionMatrix :: "camera \<Rightarrow> camera" where
  "updateProjectionMatrix c = c\<lparr>projection := (fov c, aspect c, near c, far c)\<rparr>"

definition PerspectiveCamera :: "real \<Rightarrow> jsnum \<Rightarrow> real \<Rightarrow> real \<Rightarrow> camera" where
  "PerspectiveCamera f a n fr =
     updateProjectionMatrix
       \<lparr>fov = f, aspect = a, near = n, far = fr, cam_position = Vector3 0 0 0,
        projection = (f, a, n, fr)\<rparr>"

record viewport =
  camera :: camera
  renderer :: renderer

text \<open>
  Lines 6 to 16: renderer and camera at load time, for the window \<open>win\<close> and a canvas
  whose drawing buffer is \<open>cw\<close> by \<open>ch\<close>. The \<^verbatim>\<open>OrbitControls\<close> of line 18 move the
  camera on user input; they touch neither the renderer nor the camera's projection
  parameters and are not modelled.
\<close>

definition setup_viewport :: "window \<Rightarrow> nat \<Rightarrow> nat \<Rightarrow> viewport" where
  "setup_viewport win cw ch =
     (let r0 = WebGLRenderer cw ch;
          r1 = setPixelRatio (min (devicePixelRatio win) 2) r0;
          r2 = setSize (real (innerWidth win)) (real (innerHeight win)) r1;
          c0 = PerspectiveCamera 75 (js_div (innerWidth win) (innerHeight win)) 0.1 2000;
          c1 = c0\<lparr>cam_position := Vector3 0 60 130\<rparr>
      in \<lparr>camera = c1, renderer = r2\<rparr>)"

text \<open>Lines 253 to 259: the listener, run with the window as it is when the event fires.\<close>

definition resize :: "window \<Rightarrow> viewport \<Rightarrow> viewport" where
  "resize win vp =
     (let w = innerWidth win;
          h = innerHeight win;
          c1 = (camera vp)\<lparr>aspect := js_div w h\<rparr>;
          c2 = updateProjectionMatrix c1;
          r1 = setSize (real w) (real h) (renderer vp)
      in \<lparr>camera = c2, renderer = r1\<rparr>)"

section \<open>Notions used to state the properties\<close>

subsection \<open>Rotation angles and the nodes a tick turns\<close>

text \<open>The angle about the vertical axis of node \<open>r\<close> in a scene: \<^verbatim>\<open>r.rotation.y\<close>.\<close>

definition rotationY :: "scene_state \<Rightarrow> ref \<Rightarrow> real" where
  "rotationY st r = ey (rotation (objs (store st) r))"

text \<open>A node turned by the angle \<open>a\<close> about the vertical axis, all else being equal.\<close>

definition turn :: "real \<Rightarrow> object3d \<Rightarrow> object3d" where
  "turn a ob = ob\<lparr>rotation := (rotation ob)\<lparr>ey := ey (rotation ob) + a\<rparr>\<rparr>"

text \<open>
  The nodes a handle makes the tick turn, and the nodes a scene makes it turn: the sun, and
  of every planet the orbit pivot, the body mesh and the moon pivots.
\<close>

definition handle_refs :: "handle \<Rightarrow> ref list" where
  "handle_refs p = orbitPivot p # mesh p # map pivot (moonPivots p)"

definition animated_refs :: "scene_state \<Rightarrow> ref list" where
  "animated_refs st = sun st # concat (map handle_refs (planets st))"

text \<open>A handle's ring mesh, if it has one, and all the nodes a handle refers to.\<close>

definition handle_rings :: "handle \<Rightarrow> ref list" where
  "handle_rings p = (case ringMesh p of None \<Rightarrow> [] | Some r \<Rightarrow> [r])"

definition handle_nodes :: "handle \<Rightarrow> ref list" where
  "handle_nodes p = handle_refs p @ handle_rings p"

text \<open>
  The angular rate (radians per second) at which one tick turns node \<open>r\<close>: the sum of the
  rates of all handle entries that refer to \<open>r\<close>.
\<close>

definition moon_rate :: "moon_handle list \<Rightarrow> ref \<Rightarrow> real" where
  "moon_rate ms r = (\<Sum>m\<leftarrow>ms. if pivot m = r then degToRad (speed m) else 0)"

definition planet_rate :: "handle \<Rightarrow> ref \<Rightarrow> real" where
  "planet_rate p r =
     (if orbitPivot p = r then degToRad (orbitalSpeed p) else 0) +
     (if mesh p = r then degToRad (spinSpeed p) else 0) +
     moon_rate (moonPivots p) r"

definition rate :: "scene_state \<Rightarrow> ref \<Rightarrow> real" where
  "rate st r = (if sun st = r then degToRad 2 else 0) + (\<Sum>p\<leftarrow>planets st. planet_rate p r)"

text \<open>Two nodes that differ at most in \<^verbatim>\<open>rotation.y\<close>.\<close>

definition same_but_rotation_y :: "object3d \<Rightarrow> object3d \<Rightarrow> bool" where
  "same_but_rotation_y ob ob' \<longleftrightarrow>
     kind ob' = kind ob \<and> position ob' = position ob \<and> scale ob' = scale ob \<and>
     parent ob' = parent ob \<and> children ob' = children ob \<and>
     castShadow ob' = castShadow ob \<and> receiveShadow ob' = receiveShadow ob \<and>
     ex (rotation ob') = ex (rotation ob) \<and> ez (rotation ob') = ez (rotation ob)"

text \<open>A store in which no node is turned about the vertical axis.\<close>

definition unturned :: "heap \<Rightarrow> bool" where
  "unturned h \<longleftrightarrow> (\<forall>r. ey (rotation (objs h r)) = 0)"

subsection \<open>The nodes \<^verbatim>\<open>createPlanet\<close> builds\<close>

text \<open>The store after \<^verbatim>\<open>new\<close>; \<open>alloc\<close> returns it with the new reference.\<close>

definition allocated :: "node \<Rightarrow> heap \<Rightarrow> heap" where
  "allocated k h = snd (alloc k h)"

text \<open>
  With \<open>n\<close> the first unused reference at the call, \<^verbatim>\<open>createPlanet\<close> builds the orbit
  pivot at \<open>n\<close>, the orbit line at \<open>n + 1\<close>, the planet group at \<open>n + 2\<close>, the body mesh
  at \<open>n + 3\<close>, the ring mesh (if any) at \<open>n + 4\<close>, and then for each moon a pivot and a
  mesh. The following definitions name the nodes it leaves at these references.
\<close>

definition ring_count :: "planet_params \<Rightarrow> nat" where
  "ring_count a = (case p_ring a of None \<Rightarrow> 0 | Some rg \<Rightarrow> 1)"

definition ring_refs :: "planet_params \<Rightarrow> ref \<Rightarrow> ref list" where
  "ring_refs a n = (case p_ring a of None \<Rightarrow> [] | Some rg \<Rightarrow> [n + 4])"

definition first_moon :: "planet_params \<Rightarrow> ref \<Rightarrow> ref" where
  "first_moon a n = n + 4 + ring_count a"

fun moon_handles :: "ref \<Rightarrow> moon_params list \<Rightarrow> moon_handle list" where
  "moon_handles b [] = []"
| "moon_handles b (m # ms) = \<lparr>pivot = b, speed = m_orbitalSpeed m\<rparr> # moon_handles (b + 2) ms"

definition pivot_object :: "ref \<Rightarrow> ref \<Rightarrow> object3d" where
  "pivot_object sg n =
     (new_object Group)\<lparr>parent := Some sg, children := [Suc n, Suc (Suc n)]\<rparr>"

definition line_object :: "ref \<Rightarrow> real \<Rightarrow> object3d" where
  "line_object n d =
     (new_object (LineLoop (PointsGeometry (orbit_points d)) (LineBasicMaterial 0x333344)))
       \<lparr>parent := Some n\<rparr>"

definition group_object :: "ref \<Rightarrow> real \<Rightarrow> real \<Rightarrow> ref list \<Rightarrow> object3d" where
  "group_object n d tilt cs =
     (new_object Group)
       \<lparr>position := Vector3 d 0 0, rotation := \<lparr>ex = 0, ey = 0, ez = degToRad tilt\<rparr>,
        parent := Some n, children := cs\<rparr>"

definition body_object :: "ref \<Rightarrow> real \<Rightarrow> color \<Rightarrow> object3d" where
  "body_object pg rad col =
     (new_object (Mesh (SphereGeometry rad 32 32) (MeshStandardMaterial col 0.7 0 0 1)))
       \<lparr>parent := Some pg\<rparr>"

definition ring_object :: "ref \<Rightarrow> ring_params \<Rightarrow> object3d" where
  "ring_object pg rg =
     (new_object (Mesh (RotatedX (- pi / 2) (RingGeometry (ring_inner rg) (ring_outer rg) 64))
                       (MeshBasicMaterial (ring_color rg) DoubleSide True 0.6)))
       \<lparr>parent := Some pg\<rparr>"

definition moon_pivot_object :: "ref \<Rightarrow> ref \<Rightarrow> object3d" where
  "moon_pivot_object pg r = (new_object Group)\<lparr>parent := Some pg, children := [Suc r]\<rparr>"

definition moon_mesh_object :: "ref \<Rightarrow> moon_params \<Rightarrow> object3d" where
  "moon_mesh_object r m =
     (new_object (Mesh (SphereGeometry (m_radius m) 24 24)
                       (MeshStandardMaterial (dflt 0xaaaaaa (m_color m)) 0.8 0 0 1)))
       \<lparr>position := Vector3 (m_distance m) 0 0, parent := Some r\<rparr>"

text \<open>The store after line 112 of \<^verbatim>\<open>createPlanet\<close>, before ring and moons.\<close>

definition body_heap :: "ref \<Rightarrow> planet_params \<Rightarrow> heap \<Rightarrow> heap" where
  "body_heap sg a h0 =
    (let n = next_ref h0; line = Suc n; pg = Suc (Suc n); body = Suc (Suc (Suc n)) in
     Object3D_add pg body
      (shadows_off body
        (allocated (Mesh (SphereGeometry (dflt 2 (p_radius a)) 32 32)
                     (MeshStandardMaterial (dflt 0xB1B1B1 (p_color a)) 0.7 0 0 1))
          (Object3D_add n pg
            (rotation_z_set pg (degToRad (dflt 0 (p_tiltDeg a)))
              (position_set pg (dflt 25 (p_distance a)) 0 0
                (allocated Group
                  (Object3D_add n line
                    (allocated (LineLoop (PointsGeometry (orbit_points (dflt 25 (p_distance a))))
                                  (LineBasicMaterial 0x333344))
                      (Object3D_add sg n (position_set n 0 0 0 (allocated Group h0))))))))))))"

subsection \<open>Scenes built by the script\<close>

text \<open>
  The invariant of scene assembly: the sun group exists, and the sun and the nodes of all
  handles exist and are pairwise different.
\<close>

definition scene_inv :: "scene_state \<Rightarrow> bool" where
  "scene_inv st \<longleftrightarrow>
     sunGroup st < next_ref (store st) \<and>
     list_all (\<lambda>r. r < next_ref (store st)) (sun st # concat (map handle_nodes (planets st))) \<and>
     distinct (sun st # concat (map handle_nodes (planets st)))"

subsection \<open>Defaults of \<^verbatim>\<open>createPlanet\<close>\<close>

text \<open>The empty object literal \<^verbatim>\<open>{}\<close>: every field left out.\<close>

definition no_params :: planet_params where
  "no_params = \<lparr>p_name = None, p_radius = None, p_color = None, p_distance = None,
     p_orbitalSpeed = None, p_spinSpeed = None, p_tiltDeg = None, p_ring = None,
     p_moons = None\<rparr>"





subsection \<open>The reference table and what a scene shows of it\<close>

text \<open>
  A row of the planet table: name, radius, distance, orbital speed, spin speed, tilt in
  degrees, ring (inner and outer radius) and moons (radius, distance, orbital speed).
\<close>

type_synonym table_row =
  "string \<times> real \<times> real \<times> real \<times> real \<times> real \<times> (real \<times> real) option \<times> (real \<times> real \<times> real) list"

text \<open>
  The reference table as the specification gives it, with tilt 0, no ring and no moons
  where it names none.
\<close>

definition reference_table :: "table_row list" where
  "reference_table =
     [(''mercury'', 2, 22, 47.8, 3.0, 0, None, []),
      (''venus'', 3, 34, 35, - 2.0, 0, None, []),
      (''earth'', 3.2, 48, 29.7, 18.0, 23.5, None, [(0.9, 6, 12.0)]),
      (''mars'', 2.4, 62, 24.1, 16.0, 0, None, [(0.6, 4.5, 18.0)]),
      (''jupiter'', 7.0, 95, 13.1, 19.0, 0, None, [(0.6, 4.5, 18.0)]),
      (''saturn'', 6.5, 115, 9.6, 22.0, 26.7, Some (8.0, 12.0), [])]"

text \<open>The row a call of \<^verbatim>\<open>createPlanet\<close> stands for, defaults filled in.\<close>

definition call_row :: "planet_params \<Rightarrow> table_row" where
  "call_row a =
     (dflt ''planet'' (p_name a), dflt 2 (p_radius a), dflt 25 (p_distance a),
      dflt 0.5 (p_orbitalSpeed a), dflt 15 (p_spinSpeed a), dflt 0 (p_tiltDeg a),
      map_option (\<lambda>rg. (ring_inner rg, ring_outer rg)) (p_ring a),
      map (\<lambda>m. (m_radius m, m_distance m, m_orbitalSpeed m)) (dflt [] (p_moons a)))"

text \<open>
  What can be read off a built planet through its handle: the radius of the sphere of the
  body mesh, the position of the planet group along x, the two speeds, the planet group's
  rotation about z, the radii of the ring geometry, and for each moon pivot the radius and
  x position of its only child with the stored speed. \<open>None\<close> marks a node that is not of
  the expected kind.
\<close>

definition mesh_radius :: "heap \<Rightarrow> ref \<Rightarrow> real option" where
  "mesh_radius h r =
     (case kind (objs h r) of Mesh (SphereGeometry rad ws hs) mat \<Rightarrow> Some rad | _ \<Rightarrow> None)"

definition ring_radii :: "heap \<Rightarrow> ref \<Rightarrow> (real \<times> real) option" where
  "ring_radii h r =
     (case kind (objs h r) of
        Mesh (RotatedX ang (RingGeometry i out segs)) mat \<Rightarrow> Some (i, out)
      | _ \<Rightarrow> None)"

definition built_moon :: "heap \<Rightarrow> moon_handle \<Rightarrow> (real \<times> real \<times> real) option" where
  "built_moon h m =
     (case children (objs h (pivot m)) of
        [c] \<Rightarrow> (case mesh_radius h c of
                  Some rad \<Rightarrow> Some (rad, vx (position (objs h c)), speed m)
                | None \<Rightarrow> None)
      | _ \<Rightarrow> None)"

type_synonym built =
  "string \<times> real option \<times> real \<times> real \<times> real \<times> real \<times> (real \<times> real) option \<times>
   (real \<times> real \<times> real) option list"

definition built_row :: "heap \<Rightarrow> handle \<Rightarrow> built" where
  "built_row h p =
     (name p, mesh_radius h (mesh p), vx (position (objs h (planetGroup p))),
      orbitalSpeed p, spinSpeed p, ez (rotation (objs h (planetGroup p))),
      (case ringMesh p of None \<Rightarrow> None | Some r \<Rightarrow> ring_radii h r),
      map (built_moon h) (moonPivots p))"

text \<open>What a scene must show for a row of the table; the tilt is stored in radians.\<close>

definition expected_row :: "table_row \<Rightarrow> built" where
  "expected_row row =
     (case row of (nm, rad, dst, orb, spin, tilt, rg, ms) \<Rightarrow>
        (nm, Some rad, dst, orb, spin, degToRad tilt, rg, map Some ms))"

text \<open>The handles a sequence of calls adds to a scene.\<close>

fun created :: "planet_params list \<Rightarrow> scene_state \<Rightarrow> handle list" where
  "created [] st = []"
| "created (a # as) st =
     fst (createPlanet (sunGroup st) a (store st)) # created as (push_planet a st)"

section \<open>Lemmas\<close>

subsection \<open>The tick, node by node\<close>

text \<open>A tick turns every node by its rate times \<open>dt\<close> and changes nothing else.\<close>

lemma objs_upd: "objs (upd r f h) r' = (if r' = r then f (objs h r) else objs h r')"
  by (simp add: upd_def)

lemma next_ref_upd: "next_ref (upd r f h) = next_ref h"
  by (simp add: upd_def)

lemma turn_0: "turn 0 ob = ob"
  by (simp add: turn_def)

lemma turn_turn: "turn a (turn b ob) = turn (b + a) ob"
  by (simp add: turn_def add.assoc)

lemma objs_rotation_y_add:
  "objs (rotation_y_add r a h) r' = turn (if r' = r then a else 0) (objs h r')"
  by (simp add: rotation_y_add_def objs_upd turn_def)

lemma next_ref_rotation_y_add: "next_ref (rotation_y_add r a h) = next_ref h"
  by (simp add: rotation_y_add_def next_ref_upd)

lemma objs_animate_moons:
  "objs (animate_moons dt ms h) r = turn (moon_rate ms r * dt) (objs h r)"
proof (induction ms arbitrary: h)
  case Nil
  show ?case by (simp add: moon_rate_def turn_0)
next
  case (Cons m ms)
  have "moon_rate (m # ms) r = (if pivot m = r then degToRad (speed m) else 0) + moon_rate ms r"
    by (simp add: moon_rate_def)
  then show ?case
    by (simp add: Cons.IH objs_rotation_y_add turn_turn turn_0 distrib_right)
qed

lemma next_ref_animate_moons: "next_ref (animate_moons dt ms h) = next_ref h"
  by (induction ms arbitrary: h) (simp_all add: next_ref_rotation_y_add)

lemma objs_animate_planets:
  "objs (animate_planets dt ps h) r = turn ((\<Sum>p\<leftarrow>ps. planet_rate p r) * dt) (objs h r)"
proof (induction ps arbitrary: h)
  case Nil
  show ?case by (simp add: turn_0)
next
  case (Cons p ps)
  show ?case
    by (simp add: Cons.IH Let_def objs_animate_moons objs_rotation_y_add turn_turn turn_0
        planet_rate_def distrib_right)
qed

lemma next_ref_animate_planets: "next_ref (animate_planets dt ps h) = next_ref h"
  by (induction ps arbitrary: h)
    (simp_all add: Let_def next_ref_rotation_y_add next_ref_animate_moons)

lemma objs_animate:
  "objs (store (animate dt st)) r = turn (rate st r * dt) (objs (store st) r)"
  by (simp add: animate_def Let_def objs_animate_planets objs_rotation_y_add turn_turn turn_0
      rate_def distrib_right)

text \<open>
  A node no handle refers to has rate 0; when the animated nodes are pairwise different,
  each has the rate of its own handle entry.
\<close>

lemma moon_rate_notin: "r \<notin> set (map pivot ms) \<Longrightarrow> moon_rate ms r = 0"
  by (induction ms) (auto simp: moon_rate_def)

lemma moon_rate_distinct:
  "distinct (map pivot ms) \<Longrightarrow> m \<in> set ms \<Longrightarrow> moon_rate ms (pivot m) = degToRad (speed m)"
proof (induction ms)
  case Nil
  then show ?case by simp
next
  case (Cons k ms)
  have step: "moon_rate (k # ms) r = (if pivot k = r then degToRad (speed k) else 0) + moon_rate ms r"
    for r by (simp add: moon_rate_def)
  show ?case
  proof (cases "m = k")
    case True
    with Cons.prems have "moon_rate ms (pivot k) = 0"
      by (intro moon_rate_notin) simp
    with True show ?thesis by (simp add: step)
  next
    case False
    with Cons.prems have m: "m \<in> set ms" and d: "distinct (map pivot ms)"
      and "pivot k \<noteq> pivot m" by auto
    then show ?thesis by (simp add: step Cons.IH)
  qed
qed

lemma planet_rate_notin: "r \<notin> set (handle_refs p) \<Longrightarrow> planet_rate p r = 0"
  by (auto simp: planet_rate_def handle_refs_def moon_rate_notin)

lemma planet_rate_orbitPivot:
  "distinct (handle_refs p) \<Longrightarrow> planet_rate p (orbitPivot p) = degToRad (orbitalSpeed p)"
  by (auto simp: planet_rate_def handle_refs_def moon_rate_notin)

lemma planet_rate_mesh:
  "distinct (handle_refs p) \<Longrightarrow> planet_rate p (mesh p) = degToRad (spinSpeed p)"
  by (auto simp: planet_rate_def handle_refs_def moon_rate_notin)

lemma planet_rate_moon:
  "distinct (handle_refs p) \<Longrightarrow> m \<in> set (moonPivots p) \<Longrightarrow>
   planet_rate p (pivot m) = degToRad (speed m)"
  by (auto simp: planet_rate_def handle_refs_def moon_rate_distinct)

lemma planets_rate_notin:
  "r \<notin> set (concat (map handle_refs ps)) \<Longrightarrow> (\<Sum>p\<leftarrow>ps. planet_rate p r) = 0"
  by (induction ps) (simp_all add: planet_rate_notin)

lemma planets_rate_distinct:
  "distinct (concat (map handle_refs ps)) \<Longrightarrow> p \<in> set ps \<Longrightarrow> r \<in> set (handle_refs p) \<Longrightarrow>
   (\<Sum>q\<leftarrow>ps. planet_rate q r) = planet_rate p r"
proof (induction ps)
  case Nil
  then show ?case by simp
next
  case (Cons q ps)
  show ?case
  proof (cases "p = q")
    case True
    with Cons.prems have "r \<notin> set (concat (map handle_refs ps))" by auto
    then have "(\<Sum>q\<leftarrow>ps. planet_rate q r) = 0" by (rule planets_rate_notin)
    with True show ?thesis by simp
  next
    case False
    with Cons.prems have p: "p \<in> set ps" and d: "distinct (concat (map handle_refs ps))"
      by auto
    from p Cons.prems(3) have "r \<in> set (concat (map handle_refs ps))" by auto
    with Cons.prems(1) have "r \<notin> set (handle_refs q)" by auto
    then have "planet_rate q r = 0" by (rule planet_rate_notin)
    with Cons.IH [OF d p Cons.prems(3)] show ?thesis by simp
  qed
qed

lemma distinct_handle_refs:
  "distinct (animated_refs st) \<Longrightarrow> p \<in> set (planets st) \<Longrightarrow> distinct (handle_refs p)"
  by (auto simp: animated_refs_def distinct_concat_iff)

lemma rate_sun: "distinct (animated_refs st) \<Longrightarrow> rate st (sun st) = degToRad 2"
  by (simp add: rate_def animated_refs_def planets_rate_notin)

lemma rate_handle_ref:
  assumes "distinct (animated_refs st)" "p \<in> set (planets st)" "r \<in> set (handle_refs p)"
  shows "rate st r = planet_rate p r"
proof -
  from assms have "sun st \<noteq> r" by (auto simp: animated_refs_def)
  moreover from assms have "(\<Sum>q\<leftarrow>planets st. planet_rate q r) = planet_rate p r"
    by (intro planets_rate_distinct) (simp_all add: animated_refs_def)
  ultimately show ?thesis by (simp add: rate_def)
qed

lemma rate_notin: "r \<notin> set (animated_refs st) \<Longrightarrow> rate st r = 0"
  by (auto simp: rate_def animated_refs_def planets_rate_notin)

subsection \<open>Store operations\<close>

lemma alloc_eq: "alloc k h = (next_ref h, allocated k h)"
  by (simp add: allocated_def alloc_def)

lemma objs_allocated:
  "objs (allocated k h) r = (if r = next_ref h then new_object k else objs h r)"
  by (simp add: allocated_def alloc_def)

lemma next_ref_allocated: "next_ref (allocated k h) = Suc (next_ref h)"
  by (simp add: allocated_def alloc_def)

lemma next_ref_position_set: "next_ref (position_set r a b c h) = next_ref h"
  by (simp add: position_set_def next_ref_upd)

lemma next_ref_shadows_off: "next_ref (shadows_off r h) = next_ref h"
  by (simp add: shadows_off_def next_ref_upd)

lemma next_ref_rotation_z_set: "next_ref (rotation_z_set r a h) = next_ref h"
  by (simp add: rotation_z_set_def next_ref_upd)

lemma next_ref_Object3D_add: "next_ref (Object3D_add p c h) = next_ref h"
  by (simp add: Object3D_add_def removeFromParent_def Object3D_remove_def next_ref_upd
      split: option.split)

lemma objs_position_set:
  "objs (position_set r a b c h) r' =
     (if r' = r then (objs h r)\<lparr>position := Vector3 a b c\<rparr> else objs h r')"
  by (simp add: position_set_def objs_upd)

lemma objs_shadows_off:
  "objs (shadows_off r h) r' =
     (if r' = r then (objs h r)\<lparr>castShadow := False, receiveShadow := False\<rparr> else objs h r')"
  by (simp add: shadows_off_def objs_upd)

lemma objs_rotation_z_set:
  "objs (rotation_z_set r a h) r' =
     (if r' = r then (objs h r)\<lparr>rotation := (rotation (objs h r))\<lparr>ez := a\<rparr>\<rparr> else objs h r')"
  by (simp add: rotation_z_set_def objs_upd)

lemma objs_Object3D_add:
  "parent (objs h c) = None \<Longrightarrow> c \<noteq> p \<Longrightarrow>
   objs (Object3D_add p c h) r =
     (if r = p then (objs h p)\<lparr>children := children (objs h p) @ [c]\<rparr>
      else if r = c then (objs h c)\<lparr>parent := Some p\<rparr>
      else objs h r)"
  by (simp add: Object3D_add_def removeFromParent_def objs_upd)

lemmas heap_simps = alloc_eq objs_allocated next_ref_allocated next_ref_position_set
  next_ref_shadows_off next_ref_rotation_z_set next_ref_Object3D_add objs_position_set
  objs_shadows_off objs_rotation_z_set objs_Object3D_add

subsection \<open>Moons and ring\<close>

lemma fst_createMoons:
  "fst (createMoons pg ms acc h) = acc @ moon_handles (next_ref h) ms"
  by (induction ms arbitrary: acc h) (simp_all add: Let_def heap_simps)

lemma next_ref_createMoons:
  "next_ref (snd (createMoons pg ms acc h)) = next_ref h + 2 * length ms"
  by (induction ms arbitrary: acc h) (simp_all add: Let_def heap_simps)

lemma objs_createMoons_old:
  "pg < next_ref h \<Longrightarrow> r < next_ref h \<Longrightarrow>
   objs (snd (createMoons pg ms acc h)) r =
     (if r = pg
      then (objs h pg)\<lparr>children := children (objs h pg) @ map pivot (moon_handles (next_ref h) ms)\<rparr>
      else objs h r)"
proof (induction ms arbitrary: acc h)
  case Nil
  show ?case by simp
next
  case (Cons m ms)
  then show ?case
    by (simp add: Let_def heap_simps new_object_def)
qed

lemma objs_createMoons_new:
  "pg < next_ref h \<Longrightarrow> i < length ms \<Longrightarrow>
   objs (snd (createMoons pg ms acc h)) (next_ref h + 2 * i) = moon_pivot_object pg (next_ref h + 2 * i) \<and>
   objs (snd (createMoons pg ms acc h)) (Suc (next_ref h + 2 * i)) =
     moon_mesh_object (next_ref h + 2 * i) (ms ! i)"
proof (induction ms arbitrary: acc h i)
  case Nil
  then show ?case by simp
next
  case (Cons m ms)
  show ?case
  proof (cases i)
    case 0
    with Cons.prems show ?thesis
      by (simp add: Let_def heap_simps objs_createMoons_old new_object_def
          moon_pivot_object_def moon_mesh_object_def)
  next
    case (Suc j)
    with Cons.prems have j: "j < length ms" by simp
    define h5 where "h5 = Object3D_add (next_ref h) (Suc (next_ref h))
       (position_set (Suc (next_ref h)) (m_distance m) 0 0
         (allocated (Mesh (SphereGeometry (m_radius m) 24 24)
            (MeshStandardMaterial (dflt 0xaaaaaa (m_color m)) 0.8 0 0 1))
           (Object3D_add pg (next_ref h) (allocated Group h))))"
    have n5: "next_ref h5 = next_ref h + 2" by (simp add: h5_def heap_simps)
    with Cons.prems have pg5: "pg < next_ref h5" by simp
    have step: "createMoons pg (m # ms) acc h =
        createMoons pg ms (acc @ [\<lparr>pivot = next_ref h, speed = m_orbitalSpeed m\<rparr>]) h5"
      by (simp add: Let_def heap_simps h5_def)
    have idx: "next_ref h + 2 * i = next_ref h5 + 2 * j" by (simp add: Suc n5)
    have nth: "(m # ms) ! i = ms ! j" by (simp add: Suc)
    show ?thesis unfolding step idx nth by (rule Cons.IH [OF pg5 j])
  qed
qed

lemma fst_createRing:
  "fst (createRing pg ring h) = (case ring of None \<Rightarrow> None | Some rg \<Rightarrow> Some (next_ref h))"
  by (simp add: createRing_def Let_def heap_simps split: option.split)

lemma next_ref_createRing:
  "next_ref (snd (createRing pg ring h)) = next_ref h + (case ring of None \<Rightarrow> 0 | Some rg \<Rightarrow> 1)"
  by (simp add: createRing_def Let_def heap_simps split: option.split)

lemma objs_createRing:
  "pg < next_ref h \<Longrightarrow>
   objs (snd (createRing pg ring h)) r =
     (case ring of
        None \<Rightarrow> objs h r
      | Some rg \<Rightarrow>
          if r = pg then (objs h pg)\<lparr>children := children (objs h pg) @ [next_ref h]\<rparr>
          else if r = next_ref h then ring_object pg rg
          else objs h r)"
  by (simp add: createRing_def Let_def heap_simps new_object_def ring_object_def
      split: option.split)

subsection \<open>The handle and the nodes of \<^verbatim>\<open>createPlanet\<close>\<close>

lemma createPlanet_eq:
  "createPlanet sg a h0 =
    (let n = next_ref h0;
         rm = createRing (Suc (Suc n)) (p_ring a) (body_heap sg a h0);
         mn = createMoons (Suc (Suc n)) (dflt [] (p_moons a)) [] (snd rm)
     in (\<lparr>name = dflt ''planet'' (p_name a), orbitPivot = n, planetGroup = Suc (Suc n),
          mesh = Suc (Suc (Suc n)),
          ringMesh = fst rm, spinSpeed = dflt 15 (p_spinSpeed a),
          orbitalSpeed = dflt 0.5 (p_orbitalSpeed a), moonPivots = fst mn\<rparr>, snd mn))"
  by (simp add: createPlanet_def body_heap_def Let_def split_def heap_simps)

lemma next_ref_body_heap: "next_ref (body_heap sg a h0) = next_ref h0 + 4"
  by (simp add: body_heap_def Let_def heap_simps)

lemma objs_body_heap:
  "sg < next_ref h0 \<Longrightarrow>
   objs (body_heap sg a h0) r =
     (let n = next_ref h0 in
      if r = sg then (objs h0 sg)\<lparr>children := children (objs h0 sg) @ [n]\<rparr>
      else if r = n then pivot_object sg n
      else if r = Suc n then line_object n (dflt 25 (p_distance a))
      else if r = Suc (Suc n)
        then group_object n (dflt 25 (p_distance a)) (dflt 0 (p_tiltDeg a)) [Suc (Suc (Suc n))]
      else if r = Suc (Suc (Suc n))
        then body_object (Suc (Suc n)) (dflt 2 (p_radius a)) (dflt 0xB1B1B1 (p_color a))
      else objs h0 r)"
  by (simp add: body_heap_def Let_def heap_simps new_object_def pivot_object_def
      line_object_def group_object_def body_object_def Vector3_def)

lemma createPlanet_handle:
  "fst (createPlanet sg a h0) =
     \<lparr>name = dflt ''planet'' (p_name a), orbitPivot = next_ref h0,
      planetGroup = next_ref h0 + 2, mesh = next_ref h0 + 3,
      ringMesh = (case p_ring a of None \<Rightarrow> None | Some rg \<Rightarrow> Some (next_ref h0 + 4)),
      spinSpeed = dflt 15 (p_spinSpeed a), orbitalSpeed = dflt 0.5 (p_orbitalSpeed a),
      moonPivots = moon_handles (first_moon a (next_ref h0)) (dflt [] (p_moons a))\<rparr>"
  by (simp add: createPlanet_eq Let_def fst_createRing fst_createMoons next_ref_createRing
      next_ref_body_heap first_moon_def ring_count_def numeral_3_eq_3 split: option.split)

lemma next_ref_createPlanet:
  "next_ref (snd (createPlanet sg a h0)) =
     first_moon a (next_ref h0) + 2 * length (dflt [] (p_moons a))"
  by (simp add: createPlanet_eq Let_def next_ref_createMoons next_ref_createRing
      next_ref_body_heap first_moon_def ring_count_def split: option.split)

lemma objs_createPlanet_low:
  assumes "sg < next_ref h0" "r < next_ref h0 + 4"
  shows "objs (snd (createPlanet sg a h0)) r =
     (if r = next_ref h0 + 2
      then group_object (next_ref h0) (dflt 25 (p_distance a)) (dflt 0 (p_tiltDeg a))
             ((next_ref h0 + 3) # ring_refs a (next_ref h0) @
              map pivot (moon_handles (first_moon a (next_ref h0)) (dflt [] (p_moons a))))
      else objs (body_heap sg a h0) r)"
proof -
  let ?pg = "Suc (Suc (next_ref h0))"
  let ?rm = "createRing ?pg (p_ring a) (body_heap sg a h0)"
  have pg: "?pg < next_ref (body_heap sg a h0)" by (simp add: next_ref_body_heap)
  have pg': "?pg < next_ref (snd ?rm)" by (simp add: next_ref_createRing next_ref_body_heap)
  have r': "r < next_ref (snd ?rm)"
    using assms(2) by (simp add: next_ref_createRing next_ref_body_heap)
  have "objs (snd (createPlanet sg a h0)) r =
        objs (snd (createMoons ?pg (dflt [] (p_moons a)) [] (snd ?rm))) r"
    by (simp add: createPlanet_eq Let_def)
  also have "\<dots> = (if r = ?pg
      then (objs (snd ?rm) ?pg)\<lparr>children := children (objs (snd ?rm) ?pg) @
             map pivot (moon_handles (next_ref (snd ?rm)) (dflt [] (p_moons a)))\<rparr>
      else objs (snd ?rm) r)"
    by (rule objs_createMoons_old [OF pg' r'])
  finally show ?thesis
    using assms
    by (simp add: objs_createRing [OF pg] objs_body_heap next_ref_createRing next_ref_body_heap
        first_moon_def ring_count_def ring_refs_def group_object_def Let_def new_object_def
        numeral_3_eq_3 split: option.split)
qed

lemma objs_createPlanet_old:
  assumes "sg < next_ref h0" "r < next_ref h0"
  shows "objs (snd (createPlanet sg a h0)) r =
     (if r = sg then (objs h0 sg)\<lparr>children := children (objs h0 sg) @ [next_ref h0]\<rparr>
      else objs h0 r)"
  using assms by (simp add: objs_createPlanet_low objs_body_heap Let_def)

lemma objs_createPlanet_ring:
  assumes "sg < next_ref h0" "p_ring a = Some rg"
  shows "objs (snd (createPlanet sg a h0)) (next_ref h0 + 4) = ring_object (next_ref h0 + 2) rg"
proof -
  let ?pg = "Suc (Suc (next_ref h0))"
  let ?rm = "createRing ?pg (p_ring a) (body_heap sg a h0)"
  have pg: "?pg < next_ref (body_heap sg a h0)" by (simp add: next_ref_body_heap)
  have pg': "?pg < next_ref (snd ?rm)" by (simp add: next_ref_createRing next_ref_body_heap)
  have r': "next_ref h0 + 4 < next_ref (snd ?rm)"
    using assms(2) by (simp add: next_ref_createRing next_ref_body_heap)
  have "objs (snd (createPlanet sg a h0)) (next_ref h0 + 4) =
        objs (snd (createMoons ?pg (dflt [] (p_moons a)) [] (snd ?rm))) (next_ref h0 + 4)"
    by (simp add: createPlanet_eq Let_def)
  also have "\<dots> = objs (snd ?rm) (next_ref h0 + 4)"
    by (simp add: objs_createMoons_old [OF pg' r'])
  finally show ?thesis
    using assms by (simp add: objs_createRing [OF pg] next_ref_body_heap)
qed

lemma objs_createPlanet_moon:
  assumes "sg < next_ref h0" "i < length (dflt [] (p_moons a))"
  shows "objs (snd (createPlanet sg a h0)) (first_moon a (next_ref h0) + 2 * i) =
           moon_pivot_object (next_ref h0 + 2) (first_moon a (next_ref h0) + 2 * i) \<and>
         objs (snd (createPlanet sg a h0)) (Suc (first_moon a (next_ref h0) + 2 * i)) =
           moon_mesh_object (first_moon a (next_ref h0) + 2 * i) (dflt [] (p_moons a) ! i)"
proof -
  let ?pg = "Suc (Suc (next_ref h0))"
  let ?rm = "createRing ?pg (p_ring a) (body_heap sg a h0)"
  have pg': "?pg < next_ref (snd ?rm)" by (simp add: next_ref_createRing next_ref_body_heap)
  have n: "next_ref (snd ?rm) = first_moon a (next_ref h0)"
    by (simp add: next_ref_createRing next_ref_body_heap first_moon_def ring_count_def)
  have eq: "snd (createPlanet sg a h0) = snd (createMoons ?pg (dflt [] (p_moons a)) [] (snd ?rm))"
    by (simp add: createPlanet_eq Let_def)
  from objs_createMoons_new [OF pg' assms(2), of "[]"] show ?thesis
    unfolding eq n by simp
qed

subsection \<open>The script's scene\<close>

lemma setup_scene_refs:
  "scene (setup_scene random) = 0" "sunGroup (setup_scene random) = 5"
  "sun (setup_scene random) = 6" "planets (setup_scene random) = []"
  "next_ref (store (setup_scene random)) = 7"
  by (simp_all add: setup_scene_def Let_def empty_heap_def alloc_eq next_ref_allocated
      next_ref_position_set next_ref_shadows_off next_ref_Object3D_add)

lemma push_planet_fields:
  "store (push_planet a st) = snd (createPlanet (sunGroup st) a (store st))"
  "planets (push_planet a st) = planets st @ [fst (createPlanet (sunGroup st) a (store st))]"
  "sunGroup (push_planet a st) = sunGroup st"
  "sun (push_planet a st) = sun st"
  "scene (push_planet a st) = scene st"
  by (simp_all add: push_planet_def split_def Let_def)

lemmas planet_literals = mercury_def venus_def earth_def mars_def jupiter_def saturn_def

lemma planets_startup:
  "planets (startup random) =
    [\<lparr>name = ''mercury'', orbitPivot = 7, planetGroup = 9, mesh = 10, ringMesh = None,
      spinSpeed = 3, orbitalSpeed = 47.8, moonPivots = []\<rparr>,
     \<lparr>name = ''venus'', orbitPivot = 11, planetGroup = 13, mesh = 14, ringMesh = None,
      spinSpeed = - 2, orbitalSpeed = 35, moonPivots = []\<rparr>,
     \<lparr>name = ''earth'', orbitPivot = 15, planetGroup = 17, mesh = 18, ringMesh = None,
      spinSpeed = 18, orbitalSpeed = 29.7, moonPivots = [\<lparr>pivot = 19, speed = 12\<rparr>]\<rparr>,
     \<lparr>name = ''mars'', orbitPivot = 21, planetGroup = 23, mesh = 24, ringMesh = None,
      spinSpeed = 16, orbitalSpeed = 24.1, moonPivots = [\<lparr>pivot = 25, speed = 18\<rparr>]\<rparr>,
     \<lparr>name = ''jupiter'', orbitPivot = 27, planetGroup = 29, mesh = 30, ringMesh = None,
      spinSpeed = 19, orbitalSpeed = 13.1, moonPivots = [\<lparr>pivot = 31, speed = 18\<rparr>]\<rparr>,
     \<lparr>name = ''saturn'', orbitPivot = 33, planetGroup = 35, mesh = 36, ringMesh = Some 37,
      spinSpeed = 22, orbitalSpeed = 9.6, moonPivots = []\<rparr>]"
  by (simp add: startup_def planet_calls_def push_planet_fields setup_scene_refs
      createPlanet_handle next_ref_createPlanet first_moon_def ring_count_def dflt_def
      planet_literals)

lemma next_ref_startup: "next_ref (store (startup random)) = 38"
  by (simp add: startup_def planet_calls_def push_planet_fields setup_scene_refs
      next_ref_createPlanet first_moon_def ring_count_def dflt_def planet_literals)

lemma sun_startup: "sun (startup random) = 6" "sunGroup (startup random) = 5"
  by (simp_all add: startup_def planet_calls_def push_planet_fields setup_scene_refs)

lemma animated_refs_startup:
  "animated_refs (startup random) = [6, 7, 10, 11, 14, 15, 18, 19, 21, 24, 25, 27, 30, 31, 33, 36]"
  by (simp add: animated_refs_def handle_refs_def planets_startup sun_startup)

subsection \<open>The invariant of scene assembly\<close>

lemma moon_handles_bounds:
  "r \<in> set (map pivot (moon_handles b ms)) \<Longrightarrow> b \<le> r \<and> r < b + 2 * length ms"
  by (induction ms arbitrary: b) fastforce+

lemma distinct_moon_handles: "distinct (map pivot (moon_handles b ms))"
proof (induction ms arbitrary: b)
  case Nil
  show ?case by simp
next
  case (Cons m ms)
  have "b \<notin> set (map pivot (moon_handles (b + 2) ms))"
    using moon_handles_bounds [of b "b + 2" ms] by auto
  with Cons.IH [of "b + 2"] show ?case by simp
qed

lemma length_moon_handles: "length (moon_handles b ms) = length ms"
  by (induction ms arbitrary: b) simp_all

lemma speed_moon_handles: "map speed (moon_handles b ms) = map m_orbitalSpeed ms"
  by (induction ms arbitrary: b) simp_all

lemma nth_moon_handles:
  "i < length ms \<Longrightarrow> moon_handles b ms ! i = \<lparr>pivot = b + 2 * i, speed = m_orbitalSpeed (ms ! i)\<rparr>"
proof (induction ms arbitrary: b i)
  case Nil
  then show ?case by simp
next
  case (Cons m ms)
  then show ?case by (cases i) simp_all
qed

lemma handle_nodes_createPlanet:
  "handle_nodes (fst (createPlanet sg a h)) =
     next_ref h # (next_ref h + 3) #
     map pivot (moon_handles (first_moon a (next_ref h)) (dflt [] (p_moons a))) @
     ring_refs a (next_ref h)"
  by (simp add: handle_nodes_def handle_refs_def handle_rings_def createPlanet_handle
      ring_refs_def split: option.split)

lemma handle_nodes_createPlanet_bounds:
  assumes "r \<in> set (handle_nodes (fst (createPlanet sg a h)))"
  shows "next_ref h \<le> r \<and> r < next_ref (snd (createPlanet sg a h))"
proof -
  let ?b = "first_moon a (next_ref h)"
  let ?ms = "dflt [] (p_moons a)"
  from assms consider "r = next_ref h" | "r = next_ref h + 3"
    | "r \<in> set (map pivot (moon_handles ?b ?ms))" | "r \<in> set (ring_refs a (next_ref h))"
    by (auto simp: handle_nodes_createPlanet)
  then show ?thesis
  proof cases
    case 3
    from moon_handles_bounds [OF this] show ?thesis
      by (simp add: next_ref_createPlanet first_moon_def)
  next
    case 4
    then show ?thesis
      by (auto simp: next_ref_createPlanet first_moon_def ring_refs_def ring_count_def
          split: option.splits)
  qed (simp_all add: next_ref_createPlanet first_moon_def)
qed

lemma distinct_handle_nodes_createPlanet:
  "distinct (handle_nodes (fst (createPlanet sg a h)))"
proof -
  let ?b = "first_moon a (next_ref h)"
  let ?ms = "dflt [] (p_moons a)"
  have "r \<in> set (map pivot (moon_handles ?b ?ms)) \<Longrightarrow> next_ref h + 4 + ring_count a \<le> r" for r
    using moon_handles_bounds [of r ?b ?ms] by (simp add: first_moon_def)
  then have "next_ref h \<notin> set (map pivot (moon_handles ?b ?ms))"
    "next_ref h + 3 \<notin> set (map pivot (moon_handles ?b ?ms))"
    "p_ring a \<noteq> None \<Longrightarrow> next_ref h + 4 \<notin> set (map pivot (moon_handles ?b ?ms))"
    by (fastforce simp: ring_count_def split: option.splits)+
  then show ?thesis
    by (auto simp: handle_nodes_createPlanet distinct_moon_handles ring_refs_def
        split: option.splits)
qed

lemma next_ref_createPlanet_mono: "next_ref h < next_ref (snd (createPlanet sg a h))"
  by (simp add: next_ref_createPlanet first_moon_def)

lemma scene_inv_push_planet:
  assumes "scene_inv st"
  shows "scene_inv (push_planet a st)"
proof -
  let ?h = "store st"
  let ?c = "createPlanet (sunGroup st) a ?h"
  let ?old = "sun st # concat (map handle_nodes (planets st))"
  let ?new = "handle_nodes (fst ?c)"
  from assms have sg: "sunGroup st < next_ref ?h"
    and old: "\<And>r. r \<in> set ?old \<Longrightarrow> r < next_ref ?h"
    and d: "distinct ?old"
    by (auto simp: scene_inv_def list_all_iff)
  have new: "\<And>r. r \<in> set ?new \<Longrightarrow> next_ref ?h \<le> r \<and> r < next_ref (snd ?c)"
    by (rule handle_nodes_createPlanet_bounds)
  have mono: "next_ref ?h < next_ref (snd ?c)" by (rule next_ref_createPlanet_mono)
  have disj: "set ?old \<inter> set ?new = {}"
    using old new by fastforce
  have all: "scene_inv (push_planet a st) \<longleftrightarrow>
      sunGroup st < next_ref (snd ?c) \<and> list_all (\<lambda>r. r < next_ref (snd ?c)) (?old @ ?new) \<and>
      distinct (?old @ ?new)"
    by (simp add: scene_inv_def push_planet_fields)
  have "distinct (?old @ ?new)"
    using d disj distinct_handle_nodes_createPlanet [of "sunGroup st" a ?h]
    by (simp only: distinct_append)
  moreover have "list_all (\<lambda>r. r < next_ref (snd ?c)) (?old @ ?new)"
    using old new mono by (fastforce simp: list_all_iff)
  moreover have "sunGroup st < next_ref (snd ?c)" using sg mono by simp
  ultimately show ?thesis
    using all by blast
qed

lemma scene_inv_setup: "scene_inv (setup_scene random)"
  by (simp add: scene_inv_def setup_scene_refs)

lemma scene_inv_fold: "scene_inv st \<Longrightarrow> scene_inv (fold push_planet as st)"
  by (induction as arbitrary: st) (simp_all add: scene_inv_push_planet)

lemma animate_fields:
  "planets (animate dt st) = planets st" "sun (animate dt st) = sun st"
  "sunGroup (animate dt st) = sunGroup st" "scene (animate dt st) = scene st"
  "next_ref (store (animate dt st)) = next_ref (store st)"
  by (simp_all add: animate_def Let_def next_ref_animate_planets next_ref_rotation_y_add)

lemma scene_inv_animate: "scene_inv st \<Longrightarrow> scene_inv (animate dt st)"
  by (simp add: scene_inv_def animate_fields)

lemma scene_inv_run: "scene_inv st \<Longrightarrow> scene_inv (run dts st)"
  by (induction dts arbitrary: st) (simp_all add: scene_inv_animate)

lemma run_fields:
  "planets (run dts st) = planets st" "sun (run dts st) = sun st"
  by (induction dts arbitrary: st) (simp_all add: animate_fields)

lemma scene_inv_distinct: "scene_inv st \<Longrightarrow> distinct (animated_refs st)"
proof -
  assume "scene_inv st"
  then have d: "distinct (sun st # concat (map handle_nodes (planets st)))"
    by (simp add: scene_inv_def)
  have sub: "set (concat (map handle_refs ps)) \<subseteq> set (concat (map handle_nodes ps))" for ps
    by (auto simp: handle_nodes_def)
  have "distinct (concat (map handle_nodes ps)) \<Longrightarrow> distinct (concat (map handle_refs ps))" for ps
  proof (induction ps)
    case Nil
    show ?case by simp
  next
    case (Cons p ps)
    then show ?case using sub [of ps] by (auto simp: handle_nodes_def)
  qed
  with d sub [of "planets st"] show ?thesis
    by (auto simp: animated_refs_def)
qed

lemma scene_inv_ring:
  assumes "scene_inv st" "p \<in> set (planets st)" "ringMesh p = Some r"
  shows "r \<notin> set (animated_refs st)"
proof -
  from assms(1) have d: "distinct (sun st # concat (map handle_nodes (planets st)))"
    by (simp add: scene_inv_def)
  have r: "r \<in> set (handle_nodes p)" "r \<notin> set (handle_refs p) \<or> \<not> distinct (handle_nodes p)"
    using assms(3) by (auto simp: handle_nodes_def handle_rings_def)
  have key: "distinct (concat (map handle_nodes ps)) \<Longrightarrow> p \<in> set ps \<Longrightarrow>
        r \<notin> set (concat (map handle_refs ps))" for ps
  proof (induction ps)
    case Nil
    then show ?case by simp
  next
    case (Cons q ps)
    show ?case
    proof (cases "p = q")
      case True
      with Cons.prems r have "r \<notin> set (handle_refs q)" by auto
      moreover from True Cons.prems r have "r \<notin> set (concat (map handle_nodes ps))" by auto
      then have "r \<notin> set (concat (map handle_refs ps))" by (auto simp: handle_nodes_def)
      ultimately show ?thesis by simp
    next
      case False
      with Cons.prems have p: "p \<in> set ps" by simp
      with r have "r \<in> set (concat (map handle_nodes ps))" by auto
      with Cons.prems have "r \<notin> set (handle_nodes q)" by auto
      then have "r \<notin> set (handle_refs q)" by (simp add: handle_nodes_def)
      moreover from Cons.prems p have "r \<notin> set (concat (map handle_refs ps))"
        by (intro Cons.IH) simp_all
      ultimately show ?thesis by simp
    qed
  qed
  from d assms(2) r have "r \<noteq> sun st" by auto
  with key [of "planets st"] d assms(2) show ?thesis by (simp add: animated_refs_def)
qed


subsection \<open>Angles before the first tick\<close>

lemma rotation_Object3D_add: "rotation (objs (Object3D_add p c h) r) = rotation (objs h r)"
  by (simp add: Object3D_add_def removeFromParent_def Object3D_remove_def objs_upd
      split: option.split)

lemma unturned_allocated: "unturned h \<Longrightarrow> unturned (allocated k h)"
  by (simp add: unturned_def objs_allocated new_object_def)

lemma unturned_Object3D_add: "unturned h \<Longrightarrow> unturned (Object3D_add p c h)"
  by (simp add: unturned_def rotation_Object3D_add)

lemma unturned_position_set: "unturned h \<Longrightarrow> unturned (position_set r a b c h)"
  by (simp add: unturned_def objs_position_set)

lemma unturned_shadows_off: "unturned h \<Longrightarrow> unturned (shadows_off r h)"
  by (simp add: unturned_def objs_shadows_off)

lemma unturned_rotation_z_set: "unturned h \<Longrightarrow> unturned (rotation_z_set r a h)"
  by (simp add: unturned_def objs_rotation_z_set)

lemmas unturned_simps = unturned_allocated unturned_Object3D_add unturned_position_set
  unturned_shadows_off unturned_rotation_z_set

lemma unturned_createMoons: "unturned h \<Longrightarrow> unturned (snd (createMoons pg ms acc h))"
  by (induction ms arbitrary: acc h) (simp_all add: Let_def alloc_eq unturned_simps)

lemma unturned_createRing: "unturned h \<Longrightarrow> unturned (snd (createRing pg ring h))"
  by (simp add: createRing_def Let_def alloc_eq unturned_simps split: option.split)

lemma unturned_createPlanet: "unturned h \<Longrightarrow> unturned (snd (createPlanet sg a h))"
  by (simp add: createPlanet_eq body_heap_def Let_def unturned_simps unturned_createRing
      unturned_createMoons)

lemma unturned_setup: "unturned (store (setup_scene random))"
proof -
  have "unturned empty_heap" by (simp add: unturned_def empty_heap_def new_object_def)
  then show ?thesis
    by (simp add: setup_scene_def Let_def alloc_eq unturned_simps)
qed

lemma unturned_fold: "unturned (store st) \<Longrightarrow> unturned (store (fold push_planet as st))"
  by (induction as arbitrary: st) (simp_all add: push_planet_fields unturned_createPlanet)

lemma unturned_startup: "unturned (store (startup random))"
  by (simp add: startup_def unturned_fold unturned_setup)

lemma rotationY_animate:
  "rotationY (animate dt st) r = rotationY st r + rate st r * dt"
  by (simp add: rotationY_def objs_animate turn_def)

lemma scene_inv_startup: "scene_inv (startup random)"
  by (simp add: startup_def scene_inv_fold scene_inv_setup)

lemma same_but_rotation_y_turn: "same_but_rotation_y ob (turn a ob)"
  by (simp add: same_but_rotation_y_def turn_def)

subsection \<open>The nodes of a planet, one by one\<close>

lemma objs_createPlanet_group:
  assumes "sg < next_ref h0"
  shows "objs (snd (createPlanet sg a h0)) (next_ref h0 + 2) =
     group_object (next_ref h0) (dflt 25 (p_distance a)) (dflt 0 (p_tiltDeg a))
       ((next_ref h0 + 3) # ring_refs a (next_ref h0) @
        map pivot (moon_handles (first_moon a (next_ref h0)) (dflt [] (p_moons a))))"
  using assms by (simp add: objs_createPlanet_low)

lemma objs_createPlanet_pivot:
  assumes "sg < next_ref h0"
  shows "objs (snd (createPlanet sg a h0)) (next_ref h0) = pivot_object sg (next_ref h0)"
  using assms by (simp add: objs_createPlanet_low objs_body_heap Let_def)

lemma objs_createPlanet_line:
  assumes "sg < next_ref h0"
  shows "objs (snd (createPlanet sg a h0)) (Suc (next_ref h0)) =
           line_object (next_ref h0) (dflt 25 (p_distance a))"
  using assms by (simp add: objs_createPlanet_low objs_body_heap Let_def)

lemma objs_createPlanet_body:
  assumes "sg < next_ref h0"
  shows "objs (snd (createPlanet sg a h0)) (next_ref h0 + 3) =
           body_object (next_ref h0 + 2) (dflt 2 (p_radius a)) (dflt 0xB1B1B1 (p_color a))"
  using assms by (simp add: objs_createPlanet_low objs_body_heap Let_def numeral_3_eq_3)

lemma handle_rings_createPlanet:
  "handle_rings (fst (createPlanet sg a h0)) = ring_refs a (next_ref h0)"
  by (simp add: handle_rings_def createPlanet_handle ring_refs_def split: option.split)

subsection \<open>Runs of ticks\<close>

lemma animated_refs_animate: "animated_refs (animate dt st) = animated_refs st"
  by (simp add: animated_refs_def animate_fields)

lemma objs_run_notin:
  "r \<notin> set (animated_refs st) \<Longrightarrow> objs (store (run dts st)) r = objs (store st) r"
proof (induction dts arbitrary: st)
  case Nil
  show ?case by simp
next
  case (Cons dt dts)
  then show ?case by (simp add: animated_refs_animate objs_animate rate_notin turn_0)
qed

subsection \<open>The orbit circle\<close>

lemma EPSILON_small: "EPSILON < 2 * pi"
proof -
  have "EPSILON \<le> 1" by (simp add: EPSILON_def)
  also have "1 < 2 * pi" using pi_ge_two by simp
  finally show ?thesis .
qed

lemma getPoint_circle:
  "getPoint \<lparr>aX = 0, aY = 0, xRadius = d, yRadius = d, aStartAngle = 0, aEndAngle = 2 * pi,
             aClockwise = False, aRotation = 0\<rparr> t =
   (d * cos (t * (2 * pi)), d * sin (t * (2 * pi)))"
  using EPSILON_small by (simp add: getPoint_def Let_def wrap_angle_def)

lemma orbit_points_eq:
  "orbit_points d =
     map (\<lambda>i. Vector3 (d * cos (real i / 128 * (2 * pi))) 0 (d * sin (real i / 128 * (2 * pi))))
         [0..<129]"
  by (simp add: orbit_points_def Let_def getPoints_def getPoint_circle comp_def)

lemma length_orbit_points: "length (orbit_points d) = 129"
  by (simp add: orbit_points_eq)

lemma orbit_points_vertex:
  assumes "v \<in> set (orbit_points d)"
  shows "vy v = 0 \<and> vlength v = \<bar>d\<bar>"
proof -
  from assms obtain t where v: "v = Vector3 (d * cos t) 0 (d * sin t)"
    by (auto simp: orbit_points_eq)
  have "(d * cos t) * (d * cos t) + (d * sin t) * (d * sin t) =
        d * d * (cos t * cos t + sin t * sin t)"
    by algebra
  also have "\<dots> = d * d" by simp
  finally have "vlength v = sqrt (d * d)" by (simp add: v vlength_def Vector3_def)
  then show ?thesis by (simp add: v Vector3_def)
qed

lemma hd_orbit_points: "hd (orbit_points d) = Vector3 d 0 0"
proof -
  have "[0..<129] = 0 # [1..<129]" by (simp add: upt_conv_Cons)
  then show ?thesis by (simp add: orbit_points_eq)
qed

lemma last_orbit_points: "last (orbit_points d) = Vector3 d 0 0"
proof -
  have "[0..<129] = [0..<128] @ [128]" using upt_Suc_append [of 0 128] by simp
  then show ?thesis by (simp add: orbit_points_eq)
qed

subsection \<open>Reading the table off a scene\<close>

lemma built_moon_createPlanet:
  assumes "sg < next_ref h0" and "i < length (dflt [] (p_moons a))"
  shows "built_moon (snd (createPlanet sg a h0))
           (moon_handles (first_moon a (next_ref h0)) (dflt [] (p_moons a)) ! i) =
         Some (m_radius (dflt [] (p_moons a) ! i), m_distance (dflt [] (p_moons a) ! i),
               m_orbitalSpeed (dflt [] (p_moons a) ! i))"
  using objs_createPlanet_moon [OF assms] assms(2)
  by (simp add: built_moon_def mesh_radius_def nth_moon_handles moon_pivot_object_def
      moon_mesh_object_def new_object_def Vector3_def)

lemma built_row_createPlanet:
  assumes "sg < next_ref h0"
  shows "built_row (snd (createPlanet sg a h0)) (fst (createPlanet sg a h0)) =
         expected_row (call_row a)"
proof -
  let ?h = "snd (createPlanet sg a h0)"
  let ?n = "next_ref h0"
  let ?ms = "dflt [] (p_moons a)"
  have body: "mesh_radius ?h (?n + 3) = Some (dflt 2 (p_radius a))"
    using objs_createPlanet_body [OF assms, of a]
    by (simp add: mesh_radius_def body_object_def new_object_def)
  have grp: "vx (position (objs ?h (?n + 2))) = dflt 25 (p_distance a)"
    "ez (rotation (objs ?h (?n + 2))) = degToRad (dflt 0 (p_tiltDeg a))"
    using objs_createPlanet_group [OF assms, of a]
    by (simp_all add: group_object_def Vector3_def)
  have ring: "ring_radii ?h (?n + 4) = Some (ring_inner rg, ring_outer rg)"
    if "p_ring a = Some rg" for rg
    using objs_createPlanet_ring [OF assms that]
    by (simp add: ring_radii_def ring_object_def new_object_def)
  have moons: "map (built_moon ?h) (moon_handles (first_moon a ?n) ?ms) =
      map Some (map (\<lambda>m. (m_radius m, m_distance m, m_orbitalSpeed m)) ?ms)"
    by (rule nth_equalityI)
      (simp_all add: length_moon_handles built_moon_createPlanet [OF assms])
  show ?thesis
    using body grp moons
    by (auto simp: built_row_def expected_row_def call_row_def createPlanet_handle ring
        split: option.split)
qed

lemma objs_fold_push_old:
  "sunGroup st < next_ref (store st) \<Longrightarrow> r < next_ref (store st) \<Longrightarrow> r \<noteq> sunGroup st \<Longrightarrow>
   objs (store (fold push_planet as st)) r = objs (store st) r"
proof (induction as arbitrary: st)
  case Nil
  show ?case by simp
next
  case (Cons a as)
  let ?st = "push_planet a st"
  have n: "next_ref (store st) < next_ref (store ?st)"
    by (simp add: push_planet_fields next_ref_createPlanet_mono)
  with Cons.prems have "objs (store (fold push_planet as ?st)) r = objs (store ?st) r"
    by (intro Cons.IH) (simp_all add: push_planet_fields)
  also have "\<dots> = objs (store st) r"
    using Cons.prems by (simp add: push_planet_fields objs_createPlanet_old)
  finally show ?case by simp
qed

lemma built_row_fold_push:
  assumes sg: "sunGroup st < next_ref (store st)"
  shows "built_row (store (fold push_planet as (push_planet a st)))
           (fst (createPlanet (sunGroup st) a (store st))) =
         expected_row (call_row a)"
proof -
  let ?sg = "sunGroup st" and ?g = "store st"
  let ?p = "fst (createPlanet ?sg a ?g)" and ?h = "snd (createPlanet ?sg a ?g)"
  let ?st = "push_planet a st"
  let ?H = "store (fold push_planet as ?st)"
  let ?n = "next_ref ?g"
  let ?b = "first_moon a ?n"
  let ?ms = "dflt [] (p_moons a)"
  have st: "store ?st = ?h" "sunGroup ?st = ?sg" by (simp_all add: push_planet_fields)
  have keep: "objs ?H r = objs ?h r" if "?n \<le> r" "r < next_ref ?h" for r
    using objs_fold_push_old [of ?st r as] that sg next_ref_createPlanet_mono [of ?g ?sg a]
    by (simp add: st)
  have nx: "next_ref ?h = ?b + 2 * length ?ms" by (rule next_ref_createPlanet)
  have b: "?b = ?n + 4 + ring_count a" by (simp add: first_moon_def)
  have k1: "objs ?H (?n + 3) = objs ?h (?n + 3)" "objs ?H (?n + 2) = objs ?h (?n + 2)"
    by (rule keep; simp add: nx b)+
  have k2: "objs ?H (?n + 4) = objs ?h (?n + 4)" if "p_ring a = Some rg" for rg
    by (rule keep) (simp_all add: nx b ring_count_def that)
  have moon: "built_moon ?H (moon_handles ?b ?ms ! i) = built_moon ?h (moon_handles ?b ?ms ! i)"
    if i: "i < length ?ms" for i
  proof -
    have piv: "objs ?H (?b + 2 * i) = objs ?h (?b + 2 * i)"
      using i by (intro keep) (simp_all add: nx b)
    have msh: "objs ?H (Suc (?b + 2 * i)) = objs ?h (Suc (?b + 2 * i))"
      using i by (intro keep) (simp_all add: nx b)
    from objs_createPlanet_moon [OF sg i]
    have ch: "children (objs ?h (?b + 2 * i)) = [Suc (?b + 2 * i)]"
      by (simp add: moon_pivot_object_def)
    show ?thesis
      by (simp add: built_moon_def nth_moon_handles i piv ch msh mesh_radius_def
          cong: option.case_cong)
  qed
  have moons: "map (built_moon ?H) (moon_handles ?b ?ms) = map (built_moon ?h) (moon_handles ?b ?ms)"
    by (rule nth_equalityI) (simp_all add: length_moon_handles moon)
  have "built_row ?H ?p = built_row ?h ?p"
    using k1 k2 moons
    by (auto simp: built_row_def createPlanet_handle mesh_radius_def ring_radii_def
        split: option.split)
  then show ?thesis by (simp add: built_row_createPlanet [OF sg])
qed

lemma planets_fold: "planets (fold push_planet as st) = planets st @ created as st"
  by (induction as arbitrary: st) (simp_all add: push_planet_fields)

lemma built_rows_created:
  "sunGroup st < next_ref (store st) \<Longrightarrow>
   map (built_row (store (fold push_planet as st))) (created as st) =
     map (\<lambda>a. expected_row (call_row a)) as"
proof (induction as arbitrary: st)
  case Nil
  show ?case by simp
next
  case (Cons a as)
  have "sunGroup (push_planet a st) < next_ref (store (push_planet a st))"
    using Cons.prems next_ref_createPlanet_mono [of "store st" "sunGroup st" a]
    by (simp add: push_planet_fields)
  from Cons.IH [OF this] built_row_fold_push [OF Cons.prems, of as a]
  show ?case by simp
qed

subsection \<open>The renderer's pixel ratio\<close>

lemma pixelRatio_resize: "pixelRatio (renderer (resize win vp)) = pixelRatio (renderer vp)"
  by (simp add: resize_def Let_def setSize_def)

lemma pixelRatio_fold_resize:
  "pixelRatio (renderer (fold resize wins vp)) = pixelRatio (renderer vp)"
  by (induction wins arbitrary: vp) (simp_all add: pixelRatio_resize)

lemma pixelRatio_setup:
  "pixelRatio (renderer (setup_viewport win cw ch)) = min (devicePixelRatio win) 2"
  by (simp add: setup_viewport_def Let_def setSize_def setPixelRatio_def WebGLRenderer_def)

subsection \<open>Defaults\<close>


subsection \<open>Double-precision products\<close>

text \<open>
  A number between \<open>2\<^sup>n\<close> and \<open>2\<^sup>n\<^sup>+\<^sup>1\<close> is rounded to a multiple of \<open>2\<^sup>n\<^sup>-\<^sup>5\<^sup>2\<close>. The doubles
  nearest to 1.15 and to 1.2 lie just below them, and the products with 800 and 600 round
  differently: to just below 920, and to 690, 960 and 720 exactly. (The fractions
  \<open>23 / 20\<close> and \<open>6 / 5\<close> are 1.15 and 1.2.)
\<close>

lemma double_round_normal:
  assumes "2 ^ n \<le> x" and "x < 2 * 2 ^ n"
  shows "double_round x = 2 ^ n / 2 ^ 52 * of_int (round_half_even (x * 2 ^ 52 / 2 ^ n))"
proof -
  have pos: "0 < x" using assms(1) by (rule less_le_trans [rotated]) simp
  have p1: "2 powr real n = (2::real) ^ n"
    by (simp add: powr_realpow)
  have p2: "2 powr (real n + 1) = (2::real) * 2 ^ n"
    by (simp add: powr_add powr_realpow)
  have "\<lfloor>log 2 x\<rfloor> = int n"
    using assms pos by (simp add: floor_log_eq_powr_iff p1 p2)
  then have e: "max \<lfloor>log 2 x\<rfloor> (- 1022) = int n" by simp
  have ax: "\<bar>x\<bar> = x" using pos by simp
  have u: "2 powr (real n - 52) = (2::real) ^ n / 2 ^ 52"
    using powr_realpow [of "2::real" 52] by (simp add: powr_diff powr_realpow)
  show ?thesis
    using pos by (simp add: double_round_def Let_def ax e u)
qed

lemma double_115: "double_round (23 / 20) = 5179139571476070 / 2 ^ 52"
  by (subst double_round_normal [of 0]) (simp_all add: round_half_even_def)

lemma double_12: "double_round (6 / 5) = 5404319552844595 / 2 ^ 52"
  by (subst double_round_normal [of 0]) (simp_all add: round_half_even_def)

lemma double_mul_exact:
  "double_mul 800 1 = 800" "double_mul 600 1 = 600"
  "double_mul 800 2 = 1600" "double_mul 600 2 = 1200"
  "double_mul 801 (3 / 2) = 2403 / 2"
  unfolding double_mul_def
  by (subst double_round_normal [of 9], simp_all add: round_half_even_def,
      subst double_round_normal [of 9], simp_all add: round_half_even_def,
      subst double_round_normal [of 10], simp_all add: round_half_even_def,
      subst double_round_normal [of 10], simp_all add: round_half_even_def,
      subst double_round_normal [of 10], simp_all add: round_half_even_def)

lemma pixels_115:
  "\<lfloor>double_mul 800 (double_round (23 / 20))\<rfloor> = 919"
  "\<lfloor>double_mul 600 (double_round (23 / 20))\<rfloor> = 690"
  unfolding double_mul_def double_115
  by (subst double_round_normal [of 9], simp_all add: round_half_even_def)+

lemma pixels_12:
  "\<lfloor>double_mul 800 (double_round (6 / 5))\<rfloor> = 960"
  "\<lfloor>double_mul 600 (double_round (6 / 5))\<rfloor> = 720"
  unfolding double_mul_def double_12
  by (subst double_round_normal [of 9], simp_all add: round_half_even_def)+

lemma ratio_bounds:
  "min (double_round (23 / 20)) 2 = double_round (23 / 20)"
  "min (double_round (6 / 5)) 2 = double_round (6 / 5)"
  unfolding double_115 double_12 by simp_all


lemma canvas_resize:
  "canvas_width (renderer (resize win vp)) =
     \<lfloor>double_mul (real (innerWidth win)) (pixelRatio (renderer vp))\<rfloor>"
  "canvas_height (renderer (resize win vp)) =
     \<lfloor>double_mul (real (innerHeight win)) (pixelRatio (renderer vp))\<rfloor>"
  by (simp_all add: resize_def Let_def setSize_def)

lemma pixels_100_200:
  "\<lfloor>double_mul 100 (double_round (23 / 20))\<rfloor> = 114"
  "\<lfloor>double_mul 200 (double_round (23 / 20))\<rfloor> = 229"
  unfolding double_mul_def double_115
  by (subst double_round_normal [of 6], simp_all add: round_half_even_def,
      subst double_round_normal [of 7], simp_all add: round_half_even_def)

section \<open>The claims\<close>

subsection \<open>The animation tick\<close>

text \<open>
  Claim C1. One tick with elapsed time \<open>dt\<close> adds \<open>degToRad(2.0) * dt\<close> to the sun's
  \<^verbatim>\<open>rotation.y\<close> and, for every planet handle, \<open>degToRad(orbitalSpeed) * dt\<close> to the orbit
  pivot's, \<open>degToRad(spinSpeed) * dt\<close> to the body mesh's (so a negative spin speed makes
  the angle decrease) and \<open>degToRad(moon.speed) * dt\<close> to each moon pivot's. This holds in
  every scene whose animated nodes are pairwise different objects, which is the case in every
  scene the script can reach: after assembling any list of planets and running any number
  of ticks. In the script's own scene all angles about the vertical axis start at zero, the
  third handle is earth, and one tick with \<open>dt = 1\<close> leaves earth's orbit pivot at
  \<open>degToRad(29.7)\<close>, its mesh at \<open>degToRad(18.0)\<close> and its moon pivot at \<open>degToRad(12.0)\<close>.
\<close>

theorem animate_increments:
  "(distinct (animated_refs st) \<longrightarrow>
      rotationY (animate dt st) (sun st) = rotationY st (sun st) + degToRad 2.0 * dt \<and>
      (\<forall>p \<in> set (planets st).
         rotationY (animate dt st) (orbitPivot p) =
           rotationY st (orbitPivot p) + degToRad (orbitalSpeed p) * dt \<and>
         rotationY (animate dt st) (mesh p) =
           rotationY st (mesh p) + degToRad (spinSpeed p) * dt \<and>
         (spinSpeed p < 0 \<and> 0 < dt \<longrightarrow>
            rotationY (animate dt st) (mesh p) < rotationY st (mesh p)) \<and>
         (\<forall>m \<in> set (moonPivots p).
            rotationY (animate dt st) (pivot m) =
              rotationY st (pivot m) + degToRad (speed m) * dt))) \<and>
   distinct (animated_refs (run dts (fold push_planet as (setup_scene random)))) \<and>
   (let st0 = startup random; e = planets st0 ! 2; st1 = animate 1.0 st0
    in name e = ''earth'' \<and> (\<forall>r. rotationY st0 r = 0) \<and>
       rotationY st1 (orbitPivot e) = degToRad 29.7 \<and>
       rotationY st1 (mesh e) = degToRad 18.0 \<and>
       rotationY st1 (pivot (moonPivots e ! 0)) = degToRad 12.0)"
proof (intro conjI impI ballI)
  assume d: "distinct (animated_refs st)"
  show "rotationY (animate dt st) (sun st) = rotationY st (sun st) + degToRad 2.0 * dt"
    by (simp add: rotationY_animate rate_sun [OF d])
  fix p assume p: "p \<in> set (planets st)"
  have dp: "distinct (handle_refs p)" by (rule distinct_handle_refs [OF d p])
  show "rotationY (animate dt st) (orbitPivot p) =
          rotationY st (orbitPivot p) + degToRad (orbitalSpeed p) * dt"
    by (simp add: rotationY_animate rate_handle_ref [OF d p] handle_refs_def
        planet_rate_orbitPivot [OF dp])
  show spin: "rotationY (animate dt st) (mesh p) =
          rotationY st (mesh p) + degToRad (spinSpeed p) * dt"
    by (simp add: rotationY_animate rate_handle_ref [OF d p] handle_refs_def
        planet_rate_mesh [OF dp])
  {
    assume "spinSpeed p < 0 \<and> 0 < dt"
    then have "degToRad (spinSpeed p) * dt < 0"
      by (simp add: degToRad_def DEG2RAD_def mult_neg_pos)
    with spin show "rotationY (animate dt st) (mesh p) < rotationY st (mesh p)" by simp
  }
  fix m assume m: "m \<in> set (moonPivots p)"
  show "rotationY (animate dt st) (pivot m) = rotationY st (pivot m) + degToRad (speed m) * dt"
    using m by (simp add: rotationY_animate rate_handle_ref [OF d p] handle_refs_def
        planet_rate_moon [OF dp m])
next
  show "distinct (animated_refs (run dts (fold push_planet as (setup_scene random))))"
    by (intro scene_inv_distinct scene_inv_run scene_inv_fold scene_inv_setup)
next
  have d: "distinct (animated_refs (startup random))"
    by (rule scene_inv_distinct [OF scene_inv_startup])
  have z: "rotationY (startup random) r = 0" for r
    using unturned_startup [of random] by (simp add: unturned_def rotationY_def)
  let ?e = "\<lparr>name = ''earth'', orbitPivot = 15, planetGroup = 17, mesh = 18, ringMesh = None,
      spinSpeed = 18, orbitalSpeed = 29.7, moonPivots = [\<lparr>pivot = 19, speed = 12\<rparr>]\<rparr>"
  have e: "planets (startup random) ! 2 = ?e" by (simp add: planets_startup)
  have mem: "?e \<in> set (planets (startup random))" by (simp add: planets_startup)
  have dp: "distinct (handle_refs ?e)" by (rule distinct_handle_refs [OF d mem])
  have r1: "rate (startup random) 15 = degToRad 29.7"
    using rate_handle_ref [OF d mem, of 15] planet_rate_orbitPivot [OF dp]
    by (simp add: handle_refs_def)
  have r2: "rate (startup random) 18 = degToRad 18"
    using rate_handle_ref [OF d mem, of 18] planet_rate_mesh [OF dp]
    by (simp add: handle_refs_def)
  have r3: "rate (startup random) 19 = degToRad 12"
    using rate_handle_ref [OF d mem, of 19] planet_rate_moon [OF dp, of "\<lparr>pivot = 19, speed = 12\<rparr>"]
    by (simp add: handle_refs_def)
  show "let st0 = startup random; e = planets st0 ! 2; st1 = animate 1.0 st0
    in name e = ''earth'' \<and> (\<forall>r. rotationY st0 r = 0) \<and>
       rotationY st1 (orbitPivot e) = degToRad 29.7 \<and>
       rotationY st1 (mesh e) = degToRad 18.0 \<and>
       rotationY st1 (pivot (moonPivots e ! 0)) = degToRad 12.0"
    by (simp add: Let_def e z rotationY_animate r1 r2 r3)
qed

theorem animate_increments_witness:
  "distinct (animated_refs (startup (\<lambda>_. 0))) \<and>
   rotationY (animate 2 (startup (\<lambda>_. 0))) 14 = degToRad (- 2) * 2 \<and>
   rotationY (animate 2 (startup (\<lambda>_. 0))) 14 < rotationY (startup (\<lambda>_. 0)) 14 \<and>
   rotationY (animate 2 (startup (\<lambda>_. 0))) 25 = degToRad 18 * 2"
proof -
  let ?st = "startup (\<lambda>_. 0)"
  have d: "distinct (animated_refs ?st)" by (simp add: animated_refs_startup)
  have z: "rotationY ?st r = 0" for r
    using unturned_startup [of "\<lambda>_. 0"] by (simp add: unturned_def rotationY_def)
  from animate_increments [of ?st 2 "[]" "[]" "\<lambda>_. 0"] d show ?thesis
    by (simp add: planets_startup z)
qed


text \<open>
  Claim C4. A tick changes nothing but \<^verbatim>\<open>rotation.y\<close> fields, and only those of the sun
  mesh, the orbit pivots, the body meshes and the moon pivots: it allocates no node, keeps
  the list of handles, leaves kind, position, scale, parent, children, shadow flags and the
  other two rotation components of every node as they were, and leaves every node outside
  the animated ones entirely unchanged. Revolution therefore comes from the rotation of the
  orbit pivot alone.
\<close>

theorem animate_frame:
  "next_ref (store (animate dt st)) = next_ref (store st) \<and>
   planets (animate dt st) = planets st \<and> sun (animate dt st) = sun st \<and>
   sunGroup (animate dt st) = sunGroup st \<and> scene (animate dt st) = scene st \<and>
   (\<forall>r. same_but_rotation_y (objs (store st) r) (objs (store (animate dt st)) r)) \<and>
   (\<forall>r. r \<notin> set (animated_refs st) \<longrightarrow> objs (store (animate dt st)) r = objs (store st) r)"
  by (simp add: animate_fields objs_animate same_but_rotation_y_turn rate_notin turn_0)

theorem animate_frame_witness:
  "35 \<notin> set (animated_refs (startup (\<lambda>_. 0))) \<and>
   objs (store (animate 1 (startup (\<lambda>_. 0)))) 35 = objs (store (startup (\<lambda>_. 0))) 35"
  using animate_frame [of 1 "startup (\<lambda>_. 0)"] by (simp add: animated_refs_startup)

text \<open>
  Claim C6. Angle accumulation is additive: for a planet handle whose orbit pivot starts
  at angle 0, a tick of \<open>t1\<close> followed by a tick of \<open>t2\<close> leaves the pivot at
  \<open>degToRad(orbitalSpeed) * (t1 + t2)\<close>, the angle one tick of \<open>t1 + t2\<close> gives (in exact
  arithmetic).
\<close>

theorem two_ticks_additive:
  assumes "distinct (animated_refs st)" and "p \<in> set (planets st)"
    and "rotationY st (orbitPivot p) = 0"
  shows "rotationY (animate t2 (animate t1 st)) (orbitPivot p) =
           degToRad (orbitalSpeed p) * (t1 + t2) \<and>
         rotationY (animate t2 (animate t1 st)) (orbitPivot p) =
           rotationY (animate (t1 + t2) st) (orbitPivot p)"
proof -
  have dp: "distinct (handle_refs p)" by (rule distinct_handle_refs [OF assms(1,2)])
  have r: "rate st (orbitPivot p) = degToRad (orbitalSpeed p)"
    using rate_handle_ref [OF assms(1,2), of "orbitPivot p"] planet_rate_orbitPivot [OF dp]
    by (simp add: handle_refs_def)
  have r': "rate (animate t1 st) (orbitPivot p) = rate st (orbitPivot p)"
    by (simp add: rate_def animate_fields)
  show ?thesis
    by (simp add: rotationY_animate r r' assms(3) distrib_left)
qed

theorem two_ticks_additive_witness:
  "distinct (animated_refs (startup (\<lambda>_. 0))) \<and>
   planets (startup (\<lambda>_. 0)) ! 2 \<in> set (planets (startup (\<lambda>_. 0))) \<and>
   rotationY (startup (\<lambda>_. 0)) (orbitPivot (planets (startup (\<lambda>_. 0)) ! 2)) = 0 \<and>
   rotationY (animate 2 (animate 1 (startup (\<lambda>_. 0)))) 15 = degToRad 29.7 * (1 + 2) \<and>
   rotationY (animate 2 (animate 1 (startup (\<lambda>_. 0)))) 15 =
     rotationY (animate (1 + 2) (startup (\<lambda>_. 0))) 15"
proof -
  let ?st = "startup (\<lambda>_. 0)"
  have d: "distinct (animated_refs ?st)" by (simp add: animated_refs_startup)
  have m: "planets ?st ! 2 \<in> set (planets ?st)" by (simp add: planets_startup)
  have z: "rotationY ?st (orbitPivot (planets ?st ! 2)) = 0"
    using unturned_startup [of "\<lambda>_. 0"] by (simp add: unturned_def rotationY_def)
  from two_ticks_additive [OF d m z, of 2 1] d m z show ?thesis
    by (simp add: planets_startup)
qed

subsection \<open>The body factory\<close>

text \<open>
  Claim C3. For every argument of \<^verbatim>\<open>createPlanet\<close> with distance \<open>d\<close> (25 when left out),
  the orbit line is the first child of the orbit pivot and sits untransformed in the pivot's
  frame; its polyline has 129 vertices, every vertex lies in the plane \<open>y = 0\<close> at Euclidean
  distance \<open>\<bar>d\<bar>\<close> from the origin, which is \<open>d\<close> for the non-negative distances of the data
  model, and the first vertex equals the last (in exact arithmetic).
\<close>

theorem orbit_path_circle:
  assumes "sg < next_ref h0"
  shows "(let (p, h) = createPlanet sg a h0; d = dflt 25 (p_distance a)
          in case children (objs h (orbitPivot p)) of
               [] \<Rightarrow> False
             | l # _ \<Rightarrow>
                 parent (objs h l) = Some (orbitPivot p) \<and>
                 position (objs h l) = Vector3 0 0 0 \<and>
                 rotation (objs h l) = \<lparr>ex = 0, ey = 0, ez = 0\<rparr> \<and>
                 scale (objs h l) = Vector3 1 1 1 \<and>
                 (case kind (objs h l) of
                    LineLoop (PointsGeometry pts) mat \<Rightarrow>
                      length pts = 129 \<and>
                      (\<forall>v \<in> set pts. vy v = 0 \<and> vlength v = \<bar>d\<bar> \<and> (0 \<le> d \<longrightarrow> vlength v = d)) \<and>
                      hd pts = last pts
                  | _ \<Rightarrow> False))"
proof -
  let ?p = "fst (createPlanet sg a h0)" and ?h = "snd (createPlanet sg a h0)"
  let ?d = "dflt 25 (p_distance a)"
  have op: "orbitPivot ?p = next_ref h0" by (simp add: createPlanet_handle)
  have piv: "children (objs ?h (next_ref h0)) = [Suc (next_ref h0), Suc (Suc (next_ref h0))]"
    using objs_createPlanet_pivot [OF assms, of a] by (simp add: pivot_object_def)
  have line: "objs ?h (Suc (next_ref h0)) = line_object (next_ref h0) ?d"
    by (rule objs_createPlanet_line [OF assms])
  have vs: "\<forall>v \<in> set (orbit_points ?d). vy v = 0 \<and> vlength v = \<bar>?d\<bar> \<and> (0 \<le> ?d \<longrightarrow> vlength v = ?d)"
    using orbit_points_vertex [of _ ?d] by auto
  show ?thesis
    using vs
    by (simp add: split_def Let_def op piv line line_object_def new_object_def
        length_orbit_points hd_orbit_points last_orbit_points)
qed

theorem orbit_path_circle_witness:
  "(5::nat) < next_ref (store (setup_scene (\<lambda>_. 0))) \<and>
   (let h = snd (createPlanet 5 earth (store (setup_scene (\<lambda>_. 0))))
    in case children (objs h 7) of
         [] \<Rightarrow> False
       | l # _ \<Rightarrow>
           (case kind (objs h l) of
              LineLoop (PointsGeometry pts) mat \<Rightarrow>
                length pts = 129 \<and> vy (hd pts) = 0 \<and> vlength (hd pts) = 48 \<and>
                hd pts = last pts
            | _ \<Rightarrow> False))"
proof -
  let ?g = "store (setup_scene (\<lambda>_. 0))"
  have sg: "(5::nat) < next_ref ?g" by (simp add: setup_scene_refs)
  have op: "orbitPivot (fst (createPlanet 5 earth ?g)) = 7"
    by (simp add: createPlanet_handle setup_scene_refs)
  have d: "dflt 25 (p_distance earth) = 48" by (simp add: earth_def dflt_def)
  have first: "length pts = 129 \<Longrightarrow> hd pts \<in> set pts" for pts :: "vector3 list"
    by (cases pts) simp_all
  have lst: "length pts = 129 \<Longrightarrow> last pts \<in> set pts" for pts :: "vector3 list"
    by (cases pts) simp_all
  from orbit_path_circle [OF sg, of earth] sg show ?thesis
    by (auto simp: split_def Let_def op d first lst
        split: list.splits node.splits geometry.splits)
qed

text \<open>
  Claim C5. When a ring descriptor is given, the ring mesh is a child of the planet group and
  not of the orbit pivot (the planet group itself hangs under the orbit pivot); its geometry
  is the ring geometry rotated by \<open>-\<pi>/2\<close> about the x axis, while the node itself is
  created unrotated; and it is none of the nodes the handle animates. In every scene
  assembled from the script's setup by any sequence of \<^verbatim>\<open>createPlanet\<close> calls, no sequence
  of ticks changes any field of any ring mesh.
\<close>

theorem ring_attached_and_static:
  "(sg < next_ref h0 \<and> p_ring a = Some rg \<longrightarrow>
      (let (p, h) = createPlanet sg a h0
       in case ringMesh p of
            None \<Rightarrow> False
          | Some r \<Rightarrow>
              parent (objs h r) = Some (planetGroup p) \<and>
              r \<in> set (children (objs h (planetGroup p))) \<and>
              r \<notin> set (children (objs h (orbitPivot p))) \<and>
              parent (objs h (planetGroup p)) = Some (orbitPivot p) \<and>
              kind (objs h r) =
                Mesh (RotatedX (- pi / 2) (RingGeometry (ring_inner rg) (ring_outer rg) 64))
                     (MeshBasicMaterial (ring_color rg) DoubleSide True 0.6) \<and>
              rotation (objs h r) = \<lparr>ex = 0, ey = 0, ez = 0\<rparr> \<and>
              r \<notin> set (handle_refs p))) \<and>
   (let st = fold push_planet as (setup_scene random)
    in \<forall>p \<in> set (planets st).
         case ringMesh p of
           None \<Rightarrow> True
         | Some r \<Rightarrow> r \<notin> set (animated_refs st) \<and>
                     objs (store (run dts st)) r = objs (store st) r)"
proof (intro conjI impI)
  assume "sg < next_ref h0 \<and> p_ring a = Some rg"
  then have sg: "sg < next_ref h0" and rg: "p_ring a = Some rg" by simp_all
  let ?p = "fst (createPlanet sg a h0)" and ?h = "snd (createPlanet sg a h0)"
  let ?n = "next_ref h0"
  have rm: "ringMesh ?p = Some (?n + 4)" by (simp add: createPlanet_handle rg)
  have pg: "planetGroup ?p = ?n + 2" and op: "orbitPivot ?p = ?n"
    by (simp_all add: createPlanet_handle)
  have ring: "objs ?h (?n + 4) = ring_object (?n + 2) rg"
    by (rule objs_createPlanet_ring [OF sg rg])
  have grp: "children (objs ?h (?n + 2)) =
      (?n + 3) # (?n + 4) # map pivot (moon_handles (first_moon a ?n) (dflt [] (p_moons a)))"
    "parent (objs ?h (?n + 2)) = Some ?n"
    using objs_createPlanet_group [OF sg, of a]
    by (simp_all add: group_object_def ring_refs_def rg)
  have piv: "children (objs ?h ?n) = [Suc ?n, Suc (Suc ?n)]"
    using objs_createPlanet_pivot [OF sg, of a] by (simp add: pivot_object_def)
  have "distinct (handle_nodes ?p)" by (rule distinct_handle_nodes_createPlanet)
  then have notin: "?n + 4 \<notin> set (handle_refs ?p)"
    by (simp add: handle_nodes_def handle_rings_def rm)
  show "let (p, h) = createPlanet sg a h0
       in case ringMesh p of
            None \<Rightarrow> False
          | Some r \<Rightarrow>
              parent (objs h r) = Some (planetGroup p) \<and>
              r \<in> set (children (objs h (planetGroup p))) \<and>
              r \<notin> set (children (objs h (orbitPivot p))) \<and>
              parent (objs h (planetGroup p)) = Some (orbitPivot p) \<and>
              kind (objs h r) =
                Mesh (RotatedX (- pi / 2) (RingGeometry (ring_inner rg) (ring_outer rg) 64))
                     (MeshBasicMaterial (ring_color rg) DoubleSide True 0.6) \<and>
              rotation (objs h r) = \<lparr>ex = 0, ey = 0, ez = 0\<rparr> \<and>
              r \<notin> set (handle_refs p)"
    using notin ring grp piv
    by (simp add: split_def Let_def rm pg op ring_object_def new_object_def)
next
  let ?st = "fold push_planet as (setup_scene random)"
  have inv: "scene_inv ?st" by (intro scene_inv_fold scene_inv_setup)
  have "case ringMesh p of None \<Rightarrow> True
        | Some r \<Rightarrow> r \<notin> set (animated_refs ?st) \<and>
                    objs (store (run dts ?st)) r = objs (store ?st) r"
    if p: "p \<in> set (planets ?st)" for p
  proof (cases "ringMesh p")
    case None
    then show ?thesis by simp
  next
    case (Some r)
    have "r \<notin> set (animated_refs ?st)" by (rule scene_inv_ring [OF inv p Some])
    then show ?thesis by (simp add: Some objs_run_notin)
  qed
  then show "let st = ?st in \<forall>p \<in> set (planets st).
         case ringMesh p of
           None \<Rightarrow> True
         | Some r \<Rightarrow> r \<notin> set (animated_refs st) \<and>
                     objs (store (run dts st)) r = objs (store st) r"
    by (simp add: Let_def)
qed

theorem ring_attached_and_static_witness:
  "(5::nat) < next_ref (store (setup_scene (\<lambda>_. 0))) \<and>
   p_ring saturn = Some \<lparr>ring_inner = 8.0, ring_outer = 12.0, ring_color = 0xdccfa0\<rparr> \<and>
   (let (p, h) = createPlanet 5 saturn (store (setup_scene (\<lambda>_. 0)))
    in ringMesh p = Some 11 \<and> parent (objs h 11) = Some 9 \<and> planetGroup p = 9 \<and>
       11 \<in> set (children (objs h 9)) \<and> 11 \<notin> set (children (objs h 7)) \<and>
       kind (objs h 11) =
         Mesh (RotatedX (- pi / 2) (RingGeometry 8.0 12.0 64))
              (MeshBasicMaterial 0xdccfa0 DoubleSide True 0.6)) \<and>
   planets (startup (\<lambda>_. 0)) ! 5 \<in> set (planets (startup (\<lambda>_. 0))) \<and>
   ringMesh (planets (startup (\<lambda>_. 0)) ! 5) = Some 37 \<and>
   37 \<notin> set (animated_refs (startup (\<lambda>_. 0))) \<and>
   objs (store (run [1, 2] (startup (\<lambda>_. 0)))) 37 = objs (store (startup (\<lambda>_. 0))) 37"
proof -
  let ?g = "store (setup_scene (\<lambda>_. 0))"
  let ?rg = "\<lparr>ring_inner = 8.0, ring_outer = 12.0, ring_color = 0xdccfa0\<rparr>"
  have sg: "(5::nat) < next_ref ?g" by (simp add: setup_scene_refs)
  have rg: "p_ring saturn = Some ?rg" by (simp add: saturn_def)
  have hd: "fst (createPlanet 5 saturn ?g) =
      \<lparr>name = ''saturn'', orbitPivot = 7, planetGroup = 9, mesh = 10, ringMesh = Some 11,
       spinSpeed = 22, orbitalSpeed = 9.6, moonPivots = []\<rparr>"
    by (simp add: createPlanet_handle setup_scene_refs first_moon_def ring_count_def dflt_def
        saturn_def)
  have m: "planets (startup (\<lambda>_. 0)) ! 5 \<in> set (planets (startup (\<lambda>_. 0)))"
    by (simp add: planets_startup)
  have r: "ringMesh (planets (startup (\<lambda>_. 0)) ! 5) = Some 37"
    by (simp add: planets_startup)
  note T = ring_attached_and_static [of 5 ?g saturn ?rg planet_calls "\<lambda>_. 0" "[1, 2]"]
  from conjunct1 [OF T] sg rg
  have built: "let (p, h) = createPlanet 5 saturn ?g
    in ringMesh p = Some 11 \<and> parent (objs h 11) = Some 9 \<and> planetGroup p = 9 \<and>
       11 \<in> set (children (objs h 9)) \<and> 11 \<notin> set (children (objs h 7)) \<and>
       kind (objs h 11) =
         Mesh (RotatedX (- pi / 2) (RingGeometry 8.0 12.0 64))
              (MeshBasicMaterial 0xdccfa0 DoubleSide True 0.6)"
    by (simp add: split_def Let_def hd)
  from conjunct2 [OF T]
  have "\<forall>p \<in> set (planets (startup (\<lambda>_. 0))).
         case ringMesh p of
           None \<Rightarrow> True
         | Some r \<Rightarrow> r \<notin> set (animated_refs (startup (\<lambda>_. 0))) \<and>
                     objs (store (run [1, 2] (startup (\<lambda>_. 0)))) r =
                     objs (store (startup (\<lambda>_. 0))) r"
    by (simp only: Let_def startup_def)
  from bspec [OF this m] r
  have "37 \<notin> set (animated_refs (startup (\<lambda>_. 0))) \<and>
      objs (store (run [1, 2] (startup (\<lambda>_. 0)))) 37 = objs (store (startup (\<lambda>_. 0))) 37"
    by simp
  with sg rg built m r show ?thesis by blast
qed




text \<open>
  Claim C9. The handle returned by \<^verbatim>\<open>createPlanet\<close> has one \<^verbatim>\<open>moonPivots\<close> entry per
  element of \<^verbatim>\<open>moons\<close>, in the same order, each with that moon's orbital speed as its
  speed and with a pivot group of its own that is a child of the planet group (the children
  of the planet group are the body mesh, the ring mesh if any, and the moon pivots in
  order); and \<^verbatim>\<open>ringMesh\<close> is non-null exactly when a ring descriptor was given.
\<close>

theorem handle_moons_and_ring:
  assumes "sg < next_ref h0"
  shows "(let (p, h) = createPlanet sg a h0; moons = dflt [] (p_moons a)
          in length (moonPivots p) = length moons \<and>
             map speed (moonPivots p) = map m_orbitalSpeed moons \<and>
             distinct (map pivot (moonPivots p)) \<and>
             (\<forall>m \<in> set (moonPivots p).
                kind (objs h (pivot m)) = Group \<and>
                parent (objs h (pivot m)) = Some (planetGroup p) \<and>
                pivot m \<in> set (children (objs h (planetGroup p)))) \<and>
             children (objs h (planetGroup p)) =
               mesh p # handle_rings p @ map pivot (moonPivots p) \<and>
             (ringMesh p \<noteq> None \<longleftrightarrow> p_ring a \<noteq> None))"
proof -
  let ?p = "fst (createPlanet sg a h0)" and ?h = "snd (createPlanet sg a h0)"
  let ?ms = "dflt [] (p_moons a)"
  let ?b = "first_moon a (next_ref h0)"
  have mp: "moonPivots ?p = moon_handles ?b ?ms" by (simp add: createPlanet_handle)
  have pg: "planetGroup ?p = next_ref h0 + 2" by (simp add: createPlanet_handle)
  have ch: "children (objs ?h (planetGroup ?p)) = mesh ?p # handle_rings ?p @ map pivot (moonPivots ?p)"
    unfolding handle_rings_createPlanet pg objs_createPlanet_group [OF assms]
    by (simp add: group_object_def createPlanet_handle)
  have each: "kind (objs ?h (pivot m)) = Group \<and> parent (objs ?h (pivot m)) = Some (planetGroup ?p) \<and>
        pivot m \<in> set (children (objs ?h (planetGroup ?p)))" if m: "m \<in> set (moonPivots ?p)" for m
  proof -
    from m obtain i where i: "i < length ?ms" and mi: "m = moon_handles ?b ?ms ! i"
      unfolding mp by (auto simp: in_set_conv_nth length_moon_handles)
    then have pm: "pivot m = ?b + 2 * i" by (simp add: nth_moon_handles)
    from objs_createPlanet_moon [OF assms i]
    have "objs ?h (pivot m) = moon_pivot_object (next_ref h0 + 2) (pivot m)" by (simp add: pm)
    moreover from m have "pivot m \<in> set (children (objs ?h (planetGroup ?p)))"
      unfolding ch by simp
    ultimately show ?thesis by (simp add: moon_pivot_object_def new_object_def pg)
  qed
  have "ringMesh ?p \<noteq> None \<longleftrightarrow> p_ring a \<noteq> None"
    by (simp add: createPlanet_handle split: option.split)
  with ch each show ?thesis
    by (simp add: split_def Let_def mp length_moon_handles speed_moon_handles
        distinct_moon_handles)
qed

theorem handle_moons_and_ring_witness:
  "(5::nat) < next_ref (store (setup_scene (\<lambda>_. 0))) \<and>
   (let (p, h) = createPlanet 5 earth (store (setup_scene (\<lambda>_. 0)))
    in moonPivots p = [\<lparr>pivot = 11, speed = 12\<rparr>] \<and> ringMesh p = None \<and>
       parent (objs h 11) = Some 9 \<and> children (objs h 9) = [10, 11])"
proof -
  have sg: "(5::nat) < next_ref (store (setup_scene (\<lambda>_. 0)))" by (simp add: setup_scene_refs)
  have hd: "fst (createPlanet 5 earth (store (setup_scene (\<lambda>_. 0)))) =
      \<lparr>name = ''earth'', orbitPivot = 7, planetGroup = 9, mesh = 10, ringMesh = None,
       spinSpeed = 18, orbitalSpeed = 29.7, moonPivots = [\<lparr>pivot = 11, speed = 12\<rparr>]\<rparr>"
    by (simp add: createPlanet_handle setup_scene_refs first_moon_def ring_count_def dflt_def
        earth_def)
  from handle_moons_and_ring [OF sg, of earth] sg show ?thesis
    by (simp add: split_def Let_def hd handle_rings_def)
qed

text \<open>
  Claim C10. A moon whose \<^verbatim>\<open>color\<close> is left out gets a mesh all the same: the only child of
  its pivot is a sphere of the moon's radius at the moon's distance, whose material has the
  fallback colour \<^verbatim>\<open>0xaaaaaa\<close>.
\<close>

theorem moon_color_default:
  assumes "sg < next_ref h0" and "p_moons a = Some ms" and "i < length ms"
    and "m_color (ms ! i) = None"
  shows "(let (p, h) = createPlanet sg a h0; m = ms ! i; pv = pivot (moonPivots p ! i)
          in case children (objs h pv) of
               [c] \<Rightarrow>
                 kind (objs h c) =
                   Mesh (SphereGeometry (m_radius m) 24 24)
                        (MeshStandardMaterial 0xaaaaaa 0.8 0 0 1) \<and>
                 parent (objs h c) = Some pv \<and>
                 position (objs h c) = Vector3 (m_distance m) 0 0
             | _ \<Rightarrow> False)"
proof -
  let ?p = "fst (createPlanet sg a h0)" and ?h = "snd (createPlanet sg a h0)"
  let ?b = "first_moon a (next_ref h0)"
  have ms: "dflt [] (p_moons a) = ms" by (simp add: assms(2) dflt_def)
  have pv: "pivot (moonPivots ?p ! i) = ?b + 2 * i"
    by (simp add: createPlanet_handle ms nth_moon_handles assms(3))
  from objs_createPlanet_moon [OF assms(1), of i a] assms(3)
  have "objs ?h (?b + 2 * i) = moon_pivot_object (next_ref h0 + 2) (?b + 2 * i)"
    and "objs ?h (Suc (?b + 2 * i)) = moon_mesh_object (?b + 2 * i) (ms ! i)"
    by (simp_all add: ms)
  then show ?thesis
    by (simp add: split_def Let_def pv moon_pivot_object_def moon_mesh_object_def
        new_object_def assms(4) dflt_def)
qed

theorem moon_color_default_witness:
  "(let a = no_params\<lparr>p_moons := Some [\<lparr>m_radius = 1, m_distance = 5, m_orbitalSpeed = 10,
                                            m_color = None\<rparr>]\<rparr>;
        h = snd (createPlanet 5 a (store (setup_scene (\<lambda>_. 0))))
    in case children (objs h 11) of
         [c] \<Rightarrow> kind (objs h c) =
                  Mesh (SphereGeometry 1 24 24) (MeshStandardMaterial 0xaaaaaa 0.8 0 0 1)
       | _ \<Rightarrow> False)"
proof -
  let ?m = "\<lparr>m_radius = 1, m_distance = 5, m_orbitalSpeed = 10, m_color = None\<rparr>"
  let ?a = "no_params\<lparr>p_moons := Some [?m]\<rparr>"
  have sg: "(5::nat) < next_ref (store (setup_scene (\<lambda>_. 0)))" by (simp add: setup_scene_refs)
  have pv: "pivot (moonPivots (fst (createPlanet 5 ?a (store (setup_scene (\<lambda>_. 0))))) ! 0) = 11"
    by (simp add: createPlanet_handle setup_scene_refs first_moon_def ring_count_def dflt_def
        no_params_def)
  from moon_color_default [OF sg, of ?a "[?m]" 0] show ?thesis
    by (simp add: split_def Let_def pv split: list.splits)
qed

subsection \<open>Scene assembly\<close>

text \<open>
  Claim C2. The script calls \<^verbatim>\<open>createPlanet\<close> six times, for mercury, venus, earth, mars,
  jupiter and saturn in this order, with exactly the parameters of the reference table
  (defaults filled in), and collects the six handles in this order; the scene it has built
  shows, for every planet, the radius, distance, speeds, tilt, ring radii and moons of its
  row.
\<close>

theorem reference_scene_table:
  "map call_row planet_calls = reference_table \<and>
   (let st = startup random
    in map name (planets st) =
         [''mercury'', ''venus'', ''earth'', ''mars'', ''jupiter'', ''saturn''] \<and>
       map (built_row (store st)) (planets st) = map expected_row reference_table)"
proof -
  have calls: "map call_row planet_calls = reference_table"
    by (simp add: planet_calls_def call_row_def reference_table_def dflt_def planet_literals)
  have sg: "sunGroup (setup_scene random) < next_ref (store (setup_scene random))"
    by (simp add: setup_scene_refs)
  have "planets (startup random) = created planet_calls (setup_scene random)"
    by (simp add: startup_def planets_fold setup_scene_refs)
  then have "map (built_row (store (startup random))) (planets (startup random)) =
      map (\<lambda>a. expected_row (call_row a)) planet_calls"
    using built_rows_created [OF sg, of planet_calls] by (simp add: startup_def)
  also have "\<dots> = map expected_row (map call_row planet_calls)" by simp
  finally have "map (built_row (store (startup random))) (planets (startup random)) =
      map expected_row reference_table"
    by (simp only: calls)
  with calls show ?thesis by (simp add: Let_def planets_startup)
qed

subsection \<open>The viewport\<close>

text \<open>
  Claim C7, as stated, fails: the drawing buffer is not always \<open>w\<close> and \<open>h\<close> scaled by
  the pixel ratio, because \<^verbatim>\<open>setSize\<close> rounds down to whole pixels. With a device pixel
  ratio of 1.5, resizing to 801 by 600 gives a buffer 1201 pixels wide, not 1201.5.
\<close>

theorem resize_surface_counterexample:
  "canvas_width (renderer (resize \<lparr>innerWidth = 801, innerHeight = 600, devicePixelRatio = 1.5\<rparr>
      (setup_viewport \<lparr>innerWidth = 1024, innerHeight = 768, devicePixelRatio = 1.5\<rparr> 300 150)))
     = 1201 \<and>
   801 * min (1.5::real) 2 = 1201.5 \<and>
   real_of_int (canvas_width (renderer (resize
      \<lparr>innerWidth = 801, innerHeight = 600, devicePixelRatio = 1.5\<rparr>
      (setup_viewport \<lparr>innerWidth = 1024, innerHeight = 768, devicePixelRatio = 1.5\<rparr> 300 150))))
     \<noteq> 801 * min 1.5 2"
proof -
  have "canvas_width (renderer (resize
      \<lparr>innerWidth = 801, innerHeight = 600, devicePixelRatio = 1.5\<rparr>
      (setup_viewport \<lparr>innerWidth = 1024, innerHeight = 768, devicePixelRatio = 1.5\<rparr> 300 150)))
     = \<lfloor>double_mul 801 1.5\<rfloor>"
    by (simp add: canvas_resize pixelRatio_setup)
  then show ?thesis by (simp add: double_mul_exact)
qed

text \<open>
  Claim C7, amended. For a resize notification with the window at \<open>w\<close> by \<open>h\<close>, the
  listener sets the camera's aspect to the JavaScript quotient \<open>w / h\<close>, recomputes the
  projection from the camera's current parameters at once, leaves the other camera
  parameters alone, sets the renderer's logical size to \<open>w\<close> by \<open>h\<close> and its drawing buffer
  to \<^verbatim>\<open>Math.floor(w * r)\<close> by \<^verbatim>\<open>Math.floor(h * r)\<close>, the products being those of double
  arithmetic, where \<open>r\<close> is the renderer's pixel ratio. That ratio is
  \<open>min(devicePixelRatio, 2)\<close> as read at load time and no resize changes it. Resizing to 800
  by 600 gives the aspect \<open>800 / 600\<close> of double arithmetic, \<open>6004799503160661 / 2\<^sup>5\<^sup>2\<close>, and a
  buffer of \<^verbatim>\<open>Math.floor(800 * r)\<close> by
  \<^verbatim>\<open>Math.floor(600 * r)\<close>: 800 by 600 at a device pixel ratio of 1, 1600 by 1200 at 2 or
  more, 919 by 690 at the double nearest 1.15, and 960 by 720 at the double nearest 1.2.
  The listener is a total function of window and viewport, and running it twice for the
  same window gives the same viewport as running it once.
\<close>

theorem resize_effect:
  "(let vp' = resize win vp; w = innerWidth win; h = innerHeight win;
        r = pixelRatio (renderer vp)
    in aspect (camera vp') = js_div w h \<and>
       projection (camera vp') =
         (fov (camera vp'), aspect (camera vp'), near (camera vp'), far (camera vp')) \<and>
       fov (camera vp') = fov (camera vp) \<and> near (camera vp') = near (camera vp) \<and>
       far (camera vp') = far (camera vp) \<and>
       cam_position (camera vp') = cam_position (camera vp) \<and>
       r_width (renderer vp') = real w \<and> r_height (renderer vp') = real h \<and>
       pixelRatio (renderer vp') = r \<and>
       canvas_width (renderer vp') = \<lfloor>double_mul (real w) r\<rfloor> \<and>
       canvas_height (renderer vp') = \<lfloor>double_mul (real h) r\<rfloor>) \<and>
   pixelRatio (renderer (fold resize wins (setup_viewport win0 cw ch))) =
     min (devicePixelRatio win0) 2 \<and>
   (let vp' = resize \<lparr>innerWidth = 800, innerHeight = 600, devicePixelRatio = dpr\<rparr>
                (fold resize wins (setup_viewport win0 cw ch));
        r = min (devicePixelRatio win0) 2
    in aspect (camera vp') = Num (double_round (800 / 600)) \<and>
       canvas_width (renderer vp') = \<lfloor>double_mul 800 r\<rfloor> \<and>
       canvas_height (renderer vp') = \<lfloor>double_mul 600 r\<rfloor>) \<and>
   (let surface = (\<lambda>dpr.
          let win = \<lparr>innerWidth = 800, innerHeight = 600, devicePixelRatio = dpr\<rparr>;
              r = renderer (resize win (setup_viewport win 300 150))
          in (canvas_width r, canvas_height r))
    in surface 1 = (800, 600) \<and> surface 2 = (1600, 1200) \<and> surface 3 = (1600, 1200) \<and>
       surface (double_round 1.15) = (919, 690) \<and>
       surface (double_round 1.2) = (960, 720)) \<and>
   double_round (800 / 600) = 6004799503160661 / 2 ^ 52 \<and>
   resize win (resize win vp) = resize win vp"
proof -
  have r: "pixelRatio (renderer (fold resize wins (setup_viewport win0 cw ch))) =
      min (devicePixelRatio win0) 2"
    by (simp add: pixelRatio_fold_resize pixelRatio_setup)
  have general: "let vp' = resize win vp; w = innerWidth win; h = innerHeight win;
        r = pixelRatio (renderer vp)
    in aspect (camera vp') = js_div w h \<and>
       projection (camera vp') =
         (fov (camera vp'), aspect (camera vp'), near (camera vp'), far (camera vp')) \<and>
       fov (camera vp') = fov (camera vp) \<and> near (camera vp') = near (camera vp) \<and>
       far (camera vp') = far (camera vp) \<and>
       cam_position (camera vp') = cam_position (camera vp) \<and>
       r_width (renderer vp') = real w \<and> r_height (renderer vp') = real h \<and>
       pixelRatio (renderer vp') = r \<and>
       canvas_width (renderer vp') = \<lfloor>double_mul (real w) r\<rfloor> \<and>
       canvas_height (renderer vp') = \<lfloor>double_mul (real h) r\<rfloor>"
    by (simp add: resize_def Let_def setSize_def updateProjectionMatrix_def)
  have scenario: "let vp' = resize \<lparr>innerWidth = 800, innerHeight = 600, devicePixelRatio = dpr\<rparr>
                (fold resize wins (setup_viewport win0 cw ch));
        r = min (devicePixelRatio win0) 2
    in aspect (camera vp') = Num (double_round (800 / 600)) \<and>
       canvas_width (renderer vp') = \<lfloor>double_mul 800 r\<rfloor> \<and>
       canvas_height (renderer vp') = \<lfloor>double_mul 600 r\<rfloor>"
    by (simp add: Let_def canvas_resize r)
      (simp add: resize_def Let_def js_div_def updateProjectionMatrix_def)
  have examples: "let surface = (\<lambda>dpr.
          let win = \<lparr>innerWidth = 800, innerHeight = 600, devicePixelRatio = dpr\<rparr>;
              r = renderer (resize win (setup_viewport win 300 150))
          in (canvas_width r, canvas_height r))
    in surface 1 = (800, 600) \<and> surface 2 = (1600, 1200) \<and> surface 3 = (1600, 1200) \<and>
       surface (double_round 1.15) = (919, 690) \<and>
       surface (double_round 1.2) = (960, 720)"
    by (simp add: Let_def canvas_resize pixelRatio_setup ratio_bounds pixels_115 pixels_12
        double_mul_exact)
  have idem: "resize win (resize win vp) = resize win vp"
    by (simp add: resize_def Let_def setSize_def updateProjectionMatrix_def)
  have quotient: "double_round (800 / 600) = 6004799503160661 / 2 ^ 52"
    by (subst double_round_normal [of 0]) (simp_all add: round_half_even_def)
  from general r scenario examples quotient idem show ?thesis by blast
qed

end
